theory Spec2Isabelle
  imports Main "HOL-Library.AList"
begin

section \<open>Python strings and the library functions the routes call\<close>

text \<open>
  A Python \<open>str\<close> is a \<^typ>\<open>string\<close>: one \<^typ>\<open>char\<close> per code point, the
  code points being those of U+0000 to U+00FF (the ASCII range and the Latin-1 letters the
  literals of \<open>app.py\<close> are written with; \<open>CHR 0xED\<close> is U+00ED). The character
  tables below are Python's on that range. File contents are strings of bytes.
\<close>

definition ord :: "char \<Rightarrow> nat" where
  "ord c = of_char c"

definition chr_isdigit :: "char \<Rightarrow> bool" where
  \<comment> \<open>\<open>str.isdigit\<close> on one character: the ASCII digits and the superscripts U+00B2, U+00B3, U+00B9\<close>
  "chr_isdigit c = ((48 \<le> ord c \<and> ord c \<le> 57) \<or> ord c = 178 \<or> ord c = 179 \<or> ord c = 185)"

definition str_isdigit :: "string \<Rightarrow> bool" where
  "str_isdigit s = (s \<noteq> [] \<and> list_all chr_isdigit s)"

definition chr_isdecimal :: "char \<Rightarrow> bool" where
  \<comment> \<open>the decimal digits (Unicode category Nd) of the range: \<open>0\<close> to \<open>9\<close>\<close>
  "chr_isdecimal c = (48 \<le> ord c \<and> ord c \<le> 57)"

definition chr_isspace :: "char \<Rightarrow> bool" where
  \<comment> \<open>\<open>str.isspace\<close> on one character; the separators of \<open>str.split()\<close>\<close>
  "chr_isspace c = ((9 \<le> ord c \<and> ord c \<le> 13) \<or> (28 \<le> ord c \<and> ord c \<le> 32)
                     \<or> ord c = 133 \<or> ord c = 160)"

definition maiusculas :: string where
  "maiusculas = ''ABCDEFGHIJKLMNOPQRSTUVWXYZ''
     @ [CHR 0xC0, CHR 0xC1, CHR 0xC2, CHR 0xC3, CHR 0xC4, CHR 0xC5, CHR 0xC6, CHR 0xC7,
         CHR 0xC8, CHR 0xC9, CHR 0xCA, CHR 0xCB, CHR 0xCC, CHR 0xCD, CHR 0xCE, CHR 0xCF,
         CHR 0xD0, CHR 0xD1, CHR 0xD2, CHR 0xD3, CHR 0xD4, CHR 0xD5, CHR 0xD6, CHR 0xD8,
         CHR 0xD9, CHR 0xDA, CHR 0xDB, CHR 0xDC, CHR 0xDD, CHR 0xDE]"

definition minusculas :: string where
  "minusculas = ''abcdefghijklmnopqrstuvwxyz''
     @ [CHR 0xE0, CHR 0xE1, CHR 0xE2, CHR 0xE3, CHR 0xE4, CHR 0xE5, CHR 0xE6, CHR 0xE7,
         CHR 0xE8, CHR 0xE9, CHR 0xEA, CHR 0xEB, CHR 0xEC, CHR 0xED, CHR 0xEE, CHR 0xEF,
         CHR 0xF0, CHR 0xF1, CHR 0xF2, CHR 0xF3, CHR 0xF4, CHR 0xF5, CHR 0xF6, CHR 0xF8,
         CHR 0xF9, CHR 0xFA, CHR 0xFB, CHR 0xFC, CHR 0xFD, CHR 0xFE]"

definition chr_lower :: "char \<Rightarrow> char" where
  \<comment> \<open>\<open>str.lower\<close> on one character: the letters \<open>A\<close> to \<open>Z\<close> and U+00C0 to U+00DE
      (U+00D7, the multiplication sign, is not one) go to the letter 32 places further\<close>
  "chr_lower c = (case map_of (zip maiusculas minusculas) c of Some d \<Rightarrow> d | None \<Rightarrow> c)"

definition str_lower :: "string \<Rightarrow> string" where
  "str_lower s = map chr_lower s"

definition rfind :: "string \<Rightarrow> char \<Rightarrow> int" where
  \<comment> \<open>\<open>s.rfind(c)\<close>: the index of the last occurrence, or \<open>-1\<close>\<close>
  "rfind s c = (if c \<in> set s
                then int (length s) - 1 - int (length (takeWhile (\<lambda>x. x \<noteq> c) (rev s)))
                else - 1)"

definition rstrip :: "string \<Rightarrow> string \<Rightarrow> string" where
  "rstrip s cs = rev (dropWhile (\<lambda>x. x \<in> set cs) (rev s))"

definition strip :: "string \<Rightarrow> string \<Rightarrow> string" where
  "strip s cs = dropWhile (\<lambda>x. x \<in> set cs) (rstrip s cs)"

fun split_from :: "string \<Rightarrow> string \<Rightarrow> string list" where
  "split_from [] w = (if w = [] then [] else [w])"
| "split_from (c # cs) w =
     (if chr_isspace c then (if w = [] then split_from cs [] else w # split_from cs [])
      else split_from cs (w @ [c]))"

definition split :: "string \<Rightarrow> string list" where
  \<comment> \<open>\<open>s.split()\<close>: the maximal runs of non-whitespace characters\<close>
  "split s = split_from s []"

fun join_str :: "string \<Rightarrow> string list \<Rightarrow> string" where
  "join_str sep [] = []"
| "join_str sep [w] = w"
| "join_str sep (w # v # ws) = w @ sep @ join_str sep (v # ws)"

subsection \<open>\<open>str(n)\<close> and \<open>int(s)\<close>\<close>

fun str_nat :: "nat \<Rightarrow> string" where
  "str_nat n = (if n < 10 then [''0123456789'' ! n]
                else str_nat (n div 10) @ [''0123456789'' ! (n mod 10)])"

declare str_nat.simps [simp del]

definition str_int :: "int \<Rightarrow> string" where
  "str_int i = (if i < 0 then CHR ''-'' # str_nat (nat (- i)) else str_nat (nat i))"

definition py_str :: "nat \<Rightarrow> int \<Rightarrow> string option" where
  \<comment> \<open>\<open>str(i)\<close>, also inside an f-string; \<open>None\<close> is the \<open>ValueError\<close> of an integer of more
      digits than \<open>lim\<close>, the interpreter's \<open>sys.get_int_max_str_digits()\<close> (0 is no limit)\<close>
  "py_str lim i = (if 0 < lim \<and> lim < length (str_nat (nat \<bar>i\<bar>)) then None else Some (str_int i))"

definition chr_int_space :: "char \<Rightarrow> bool" where
  \<comment> \<open>the characters \<open>int\<close> skips around a numeral: the ASCII white space \<open>\t \n \v \f \r\<close> and
      the blank, and the non-ASCII spaces U+0085 and U+00A0, which it first turns into blanks\<close>
  "chr_int_space c = ((9 \<le> ord c \<and> ord c \<le> 13) \<or> ord c = 32 \<or> ord c = 133 \<or> ord c = 160)"

fun no_double_underscore :: "string \<Rightarrow> bool" where
  "no_double_underscore (a # b # r) =
     (\<not> (a = CHR ''_'' \<and> b = CHR ''_'') \<and> no_double_underscore (b # r))"
| "no_double_underscore _ = True"

definition digit_group :: "string \<Rightarrow> bool" where
  \<comment> \<open>decimal digits, single underscores allowed between two of them\<close>
  "digit_group r = (r \<noteq> [] \<and> chr_isdecimal (hd r) \<and> chr_isdecimal (last r)
                    \<and> list_all (\<lambda>c. chr_isdecimal c \<or> c = CHR ''_'') r \<and> no_double_underscore r)"

definition digits_value :: "string \<Rightarrow> int" where
  "digits_value ds = foldl (\<lambda>acc c. acc * 10 + (int (ord c) - 48)) 0 ds"

definition py_int :: "nat \<Rightarrow> string \<Rightarrow> int option" where
  \<comment> \<open>\<open>int(s)\<close> for a \<open>str\<close>; \<open>None\<close> is \<open>ValueError\<close>, also that of a numeral of more
      digits than \<open>lim\<close>\<close>
  "py_int lim s =
     (let u = dropWhile chr_int_space (rev (dropWhile chr_int_space (rev s)));
          neg = (u \<noteq> [] \<and> hd u = CHR ''-'');
          r = (if u \<noteq> [] \<and> (hd u = CHR ''-'' \<or> hd u = CHR ''+'') then tl u else u);
          ds = filter chr_isdecimal r
      in if \<not> digit_group r then None
         else if 0 < lim \<and> lim < length ds then None
         else Some (if neg then - digits_value ds else digits_value ds))"

datatype valor = VStr string | VInt int

definition int_of_valor :: "nat \<Rightarrow> valor \<Rightarrow> int option" where
  \<comment> \<open>\<open>int(x)\<close> for the two types the routes pass: a form field and the integer column\<close>
  "int_of_valor lim x = (case x of VStr s \<Rightarrow> py_int lim s | VInt i \<Rightarrow> Some i)"

subsection \<open>\<open>os.path\<close> (POSIX)\<close>

definition os_path_splitext :: "string \<Rightarrow> string \<times> string" where
  "os_path_splitext p =
     (let sepIndex = rfind p (CHR ''/'');
          dotIndex = rfind p (CHR ''.'')
      in if dotIndex > sepIndex
            \<and> list_ex (\<lambda>c. c \<noteq> CHR ''.'')
                 (take (nat (dotIndex - (sepIndex + 1))) (drop (nat (sepIndex + 1)) p))
         then (take (nat dotIndex) p, drop (nat dotIndex) p)
         else (p, []))"

definition os_path_dirname :: "string \<Rightarrow> string" where
  "os_path_dirname p =
     (let head = take (nat (rfind p (CHR ''/'') + 1)) p
      in if head \<noteq> [] \<and> head \<noteq> replicate (length head) (CHR ''/'') then rstrip head ''/''
         else head)"

definition os_path_basename :: "string \<Rightarrow> string" where
  "os_path_basename p = drop (nat (rfind p (CHR ''/'') + 1)) p"

definition os_path_join :: "string \<Rightarrow> string \<Rightarrow> string" where
  "os_path_join a b =
     (if b \<noteq> [] \<and> hd b = CHR ''/'' then b
      else if a = [] \<or> last a = CHR ''/'' then a @ b
      else a @ ''/'' @ b)"

subsection \<open>\<open>werkzeug.utils.secure_filename\<close> (POSIX)\<close>

definition nfkd_ascii :: "char \<Rightarrow> string" where
  \<comment> \<open>one character through \<open>unicodedata.normalize("NFKD", _).encode("ascii", "ignore")\<close>\<close>
  "nfkd_ascii c =
     (let n = ord c in
      if n < 128 then [c]
      else if n \<in> {160, 168, 175, 180, 184} then '' ''
      else if n = 170 then ''a'' else if n = 186 then ''o''
      else if n = 178 then ''2'' else if n = 179 then ''3'' else if n = 185 then ''1''
      else if n = 188 then ''14'' else if n = 189 then ''12'' else if n = 190 then ''34''
      else if 192 \<le> n \<and> n \<le> 197 then ''A'' else if n = 199 then ''C''
      else if 200 \<le> n \<and> n \<le> 203 then ''E'' else if 204 \<le> n \<and> n \<le> 207 then ''I''
      else if n = 209 then ''N'' else if 210 \<le> n \<and> n \<le> 214 then ''O''
      else if 217 \<le> n \<and> n \<le> 220 then ''U'' else if n = 221 then ''Y''
      else if 224 \<le> n \<and> n \<le> 229 then ''a'' else if n = 231 then ''c''
      else if 232 \<le> n \<and> n \<le> 235 then ''e'' else if 236 \<le> n \<and> n \<le> 239 then ''i''
      else if n = 241 then ''n'' else if 242 \<le> n \<and> n \<le> 246 then ''o''
      else if 249 \<le> n \<and> n \<le> 252 then ''u'' else if n = 253 \<or> n = 255 then ''y''
      else [])"

definition filename_ascii_keep :: "char \<Rightarrow> bool" where
  \<comment> \<open>the complement of the pattern \<open>[^A-Za-z0-9_.-]\<close>\<close>
  "filename_ascii_keep c =
     ((65 \<le> ord c \<and> ord c \<le> 90) \<or> (97 \<le> ord c \<and> ord c \<le> 122) \<or> (48 \<le> ord c \<and> ord c \<le> 57)
      \<or> c = CHR ''_'' \<or> c = CHR ''.'' \<or> c = CHR ''-'')"

definition secure_filename :: "string \<Rightarrow> string" where
  "secure_filename filename =
     (let f1 = concat (map nfkd_ascii filename);
          f2 = map (\<lambda>c. if c = CHR ''/'' then CHR '' '' else c) f1
      in strip (filter filename_ascii_keep (join_str ''_'' (split f2))) ''._'')"

section \<open>The school table\<close>

record info_escola =
  info_nome :: string
  municipio :: string

definition ESCOLA_MAPA :: "(int \<times> info_escola) list" where
  "ESCOLA_MAPA =
    [(101, \<lparr>info_nome = ''EE Governador Modelo I'', municipio = ''Boa Vista''\<rparr>),
     (102, \<lparr>info_nome = ''CE Professora Ant'' @ [CHR 0xF4] @ ''nia Santos'', municipio = ''Boa Vista''\<rparr>),
     (103, \<lparr>info_nome = ''Col'' @ [CHR 0xE9] @ ''gio Municipal Doutor Silva'',
            municipio = ''Caracara'' @ [CHR 0xED]\<rparr>),
     (104, \<lparr>info_nome = ''Escola Estadual Simplificada A'',
            municipio = ''Rorain'' @ [CHR 0xF3] @ ''polis''\<rparr>),
     (105, \<lparr>info_nome = ''Escola Municipal Teste B'', municipio = ''Cant'' @ [CHR 0xE1]\<rparr>),
     (106, \<lparr>info_nome = ''Centro de Educa'' @ [CHR 0xE7, CHR 0xE3] @ ''o Integral C'',
            municipio = ''Boa Vista''\<rparr>),
     (107, \<lparr>info_nome = ''Escola de Fronteira XYZ'', municipio = ''Pacaraima''\<rparr>)]"

definition get_info_escola :: "nat \<Rightarrow> valor \<Rightarrow> info_escola" where
  \<comment> \<open>the \<open>ValueError\<close> the \<open>try\<close> catches is that of \<open>int\<close> or that of the f-string\<close>
  "get_info_escola lim escola_id =
     (case int_of_valor lim escola_id of
        Some i \<Rightarrow>
          (case map_of ESCOLA_MAPA i of
             Some info \<Rightarrow> info
           | None \<Rightarrow>
               (case py_str lim i of
                  Some s \<Rightarrow> \<lparr>info_nome = ''ID '' @ s @ '' (N'' @ [CHR 0xE3] @ ''o encontrada)'',
                             municipio = ''Desconhecido''\<rparr>
                | None \<Rightarrow> \<lparr>info_nome = ''ID Inv'' @ [CHR 0xE1] @ ''lido'',
                            municipio = ''Desconhecido''\<rparr>))
      | None \<Rightarrow> \<lparr>info_nome = ''ID Inv'' @ [CHR 0xE1] @ ''lido'', municipio = ''Desconhecido''\<rparr>)"

definition get_nome_escola :: "nat \<Rightarrow> valor \<Rightarrow> string" where
  "get_nome_escola lim escola_id = info_nome (get_info_escola lim escola_id)"

section \<open>The file system\<close>

text \<open>
  The disk is the files (path and bytes) and the directories under the working directory
  of the process. Paths are compared as the program writes them, a directory also with
  trailing slashes; the working directory is the empty path. A call fails when the state
  of the disk makes it fail, and \<open>open\<close>, \<open>os.remove\<close> and \<open>os.rmdir\<close> also when
  the environment says so (permissions, a full disk): the flags of \<open>ambiente\<close> below, one
  record for each request, a flag for all the calls of its kind in that request. The same
  record says whether the queries and the commit of the request fail, and holds the
  interpreter's limit on the digits of a numeral.
\<close>

record sistema_arquivos =
  arquivos :: "(string \<times> string) list"
  pastas :: "string list"

datatype resultado_save = Gravou | Falha_abrir | Falha_escrever string

record ambiente =
  max_str_digits :: nat
  save_io :: resultado_save
  remove_falha :: bool
  rmdir_falha :: bool
  consulta_falha :: bool
  commit_falha :: bool

definition isfile :: "sistema_arquivos \<Rightarrow> string \<Rightarrow> bool" where
  "isfile fs p = (map_of (arquivos fs) p \<noteq> None)"

definition isdir :: "sistema_arquivos \<Rightarrow> string \<Rightarrow> bool" where
  "isdir fs p = (p \<noteq> [] \<and> rstrip p ''/'' \<in> set (pastas fs))"

definition os_path_exists :: "sistema_arquivos \<Rightarrow> string \<Rightarrow> bool" where
  "os_path_exists fs p = (isfile fs p \<or> isdir fs p)"

fun prefixos :: "string \<Rightarrow> string \<Rightarrow> string list" where
  "prefixos acc [] = [acc]"
| "prefixos acc (c # cs) =
     (if c = CHR ''/'' \<and> acc \<noteq> [] \<and> last acc \<noteq> CHR ''/'' then acc # prefixos (acc @ [c]) cs
      else prefixos (acc @ [c]) cs)"

definition os_makedirs :: "sistema_arquivos \<Rightarrow> string \<Rightarrow> sistema_arquivos option" where
  \<comment> \<open>\<open>os.makedirs(p)\<close>: the directory and its missing parents; \<open>None\<close> is \<open>OSError\<close>\<close>
  "os_makedirs fs p =
     (let ks = prefixos [] (rstrip p ''/'')
      in if p = [] \<or> isdir fs p \<or> list_ex (isfile fs) ks then None
         else Some (fs\<lparr>pastas := pastas fs @ filter (\<lambda>k. k \<notin> set (pastas fs)) ks\<rparr>))"

definition save :: "ambiente \<Rightarrow> sistema_arquivos \<Rightarrow> string \<Rightarrow> string \<Rightarrow> bool \<times> sistema_arquivos" where
  \<comment> \<open>\<open>FileStorage.save(dst)\<close>: \<open>open(dst, "wb")\<close>, then the copy of the stream; the flag is
      \<open>False\<close> when it raises\<close>
  "save amb fs dst conteudo =
     (if dst = [] \<or> isdir fs dst
         \<or> (os_path_dirname dst \<noteq> [] \<and> \<not> isdir fs (os_path_dirname dst)) then (False, fs)
      else case save_io amb of
             Falha_abrir \<Rightarrow> (False, fs)
           | Falha_escrever parte \<Rightarrow> (False, fs\<lparr>arquivos := AList.update dst parte (arquivos fs)\<rparr>)
           | Gravou \<Rightarrow> (True, fs\<lparr>arquivos := AList.update dst conteudo (arquivos fs)\<rparr>))"

definition os_remove :: "ambiente \<Rightarrow> sistema_arquivos \<Rightarrow> string \<Rightarrow> sistema_arquivos option" where
  "os_remove amb fs p =
     (if \<not> isfile fs p \<or> remove_falha amb then None
      else Some (fs\<lparr>arquivos := AList.delete p (arquivos fs)\<rparr>))"

definition os_listdir :: "sistema_arquivos \<Rightarrow> string \<Rightarrow> string list option" where
  \<comment> \<open>the entries of a directory, as the paths the disk holds them under\<close>
  "os_listdir fs p =
     (if \<not> isdir fs p then None
      else Some (filter (\<lambda>f. os_path_dirname f = rstrip p ''/'') (map fst (arquivos fs))
                 @ filter (\<lambda>d. os_path_dirname d = rstrip p ''/'') (pastas fs)))"

definition os_rmdir :: "ambiente \<Rightarrow> sistema_arquivos \<Rightarrow> string \<Rightarrow> sistema_arquivos option" where
  "os_rmdir amb fs p =
     (if os_listdir fs p \<noteq> Some [] \<or> rmdir_falha amb then None
      else Some (fs\<lparr>pastas := removeAll (rstrip p ''/'') (pastas fs)\<rparr>))"

section \<open>The table \<open>professor\<close>, requests and responses\<close>

record professor =
  id_prof :: nat
  nome :: string
  cpf :: string
  escola_id :: int
  caminho_foto :: string

record estado =
  tabela :: "professor list"
  disco :: sistema_arquivos

definition novo_id :: "professor list \<Rightarrow> nat" where
  \<comment> \<open>the key the storage assigns to a new row: one more than the largest in the table\<close>
  "novo_id t = Suc (fold max (map id_prof t) 0)"

record file_storage =
  filename :: string
  stream :: string

record requisicao =
  form_nome :: "string option"
  form_cpf :: "string option"
  form_escola_id :: "string option"
  form_nome_escola :: "string option"
  files_foto :: "file_storage option"

datatype json = JStr string | JNull

text \<open>
  A response is \<open>jsonify\<close> of an object with a status, a text with a status, a redirect, an
  \<open>abort\<close>, or what Flask answers (500) when the view raises.
\<close>

datatype resposta =
    Jsonify "(string \<times> json) list" nat
  | Texto string nat
  | Redirect string
  | Abort nat
  | Excecao

fun status :: "resposta \<Rightarrow> nat" where
  "status (Jsonify _ s) = s"
| "status (Texto _ s) = s"
| "status (Redirect _) = 302"
| "status (Abort s) = s"
| "status Excecao = 500"

definition json_of :: "string option \<Rightarrow> json" where
  "json_of v = (case v of None \<Rightarrow> JNull | Some s \<Rightarrow> JStr s)"

definition UPLOAD_FOLDER :: string where
  "UPLOAD_FOLDER = ''uploads/''"

definition msg_campos_obrigatorios :: string where
  "msg_campos_obrigatorios = ''Erro: Todos os campos s'' @ [CHR 0xE3] @ ''o obrigat'' @ [CHR 0xF3] @ ''rios.''"

definition msg_cpf_invalido :: string where
  "msg_cpf_invalido =
     ''Erro: O CPF deve conter exatamente 11 d'' @ [CHR 0xED] @ ''gitos num'' @ [CHR 0xE9] @ ''ricos.''"

definition msg_erro_upload :: string where
  "msg_erro_upload = ''Erro no upload do arquivo. Tente novamente.''"

definition msg_cpf_duplicado :: string where
  "msg_cpf_duplicado =
     ''Erro: Professor com este CPF j'' @ [CHR 0xE1] @ '' est'' @ [CHR 0xE1]
       @ '' cadastrado. Cadastro duplicado n'' @ [CHR 0xE3] @ ''o permitido.''"

definition msg_sucesso :: string where
  "msg_sucesso = ''Cadastro realizado com sucesso!''"

definition msg_erro_interno :: string where
  "msg_erro_interno = ''Erro interno ao finalizar o cadastro. Tente novamente.''"

definition mensagem :: "string \<Rightarrow> nat \<Rightarrow> resposta" where
  "mensagem m s = Jsonify [(''message'', JStr m)] s"

section \<open>The route \<open>/cadastro\<close>\<close>

definition pasta_municipio_de :: "string \<Rightarrow> string" where
  "pasta_municipio_de municipio_escola = os_path_join UPLOAD_FOLDER (secure_filename municipio_escola)"

definition caminho_salvamento_de :: "string \<Rightarrow> string \<Rightarrow> string \<Rightarrow> string" where
  "caminho_salvamento_de municipio_escola cpf_v extensao =
     os_path_join (pasta_municipio_de municipio_escola) (cpf_v @ extensao)"

definition salvar_arquivo ::
  "ambiente \<Rightarrow> sistema_arquivos \<Rightarrow> string \<Rightarrow> string \<Rightarrow> file_storage \<Rightarrow> string option \<times> sistema_arquivos" where
  \<comment> \<open>the first \<open>try\<close> block: the path the photo was saved under, \<open>None\<close> when it raised\<close>
  "salvar_arquivo amb fs cpf_v escola_id_v foto =
     (let extensao = str_lower (snd (os_path_splitext (filename foto)));
          info = get_info_escola (max_str_digits amb) (VStr escola_id_v);
          pasta_municipio = pasta_municipio_de (municipio info);
          caminho_salvamento = caminho_salvamento_de (municipio info) cpf_v extensao
      in case (if \<not> os_path_exists fs pasta_municipio then os_makedirs fs pasta_municipio
               else Some fs) of
           None \<Rightarrow> (None, fs)
         | Some fs1 \<Rightarrow>
             (case save amb fs1 caminho_salvamento (stream foto) of
                (True, fs2) \<Rightarrow> (Some caminho_salvamento, fs2)
              | (False, fs2) \<Rightarrow> (None, fs2)))"

definition erro_bd :: "ambiente \<Rightarrow> estado \<Rightarrow> string \<Rightarrow> resposta \<times> estado" where
  \<comment> \<open>the handler of the second \<open>try\<close> block: rollback, removal of the saved photo\<close>
  "erro_bd amb st caminho_salvamento =
     (if caminho_salvamento \<noteq> [] \<and> os_path_exists (disco st) caminho_salvamento
      then (case os_remove amb (disco st) caminho_salvamento of
              None \<Rightarrow> (Excecao, st)
            | Some fs \<Rightarrow> (mensagem msg_erro_interno 500, st\<lparr>disco := fs\<rparr>))
      else (mensagem msg_erro_interno 500, st))"

definition armazenar ::
  "ambiente \<Rightarrow> estado \<Rightarrow> string \<Rightarrow> string \<Rightarrow> string \<Rightarrow> string option \<Rightarrow> string \<Rightarrow> resposta \<times> estado" where
  \<comment> \<open>the second \<open>try\<close> block\<close>
  "armazenar amb st nome_v cpf_v escola_id_v nome_escola caminho_salvamento =
     (if consulta_falha amb then erro_bd amb st caminho_salvamento
      else if find (\<lambda>p. cpf p = cpf_v) (tabela st) \<noteq> None then
        (if os_path_exists (disco st) caminho_salvamento
         then (case os_remove amb (disco st) caminho_salvamento of
                 None \<Rightarrow> erro_bd amb st caminho_salvamento
               | Some fs \<Rightarrow> (mensagem msg_cpf_duplicado 409, st\<lparr>disco := fs\<rparr>))
         else (mensagem msg_cpf_duplicado 409, st))
      else case py_int (max_str_digits amb) escola_id_v of
             None \<Rightarrow> erro_bd amb st caminho_salvamento
           | Some e \<Rightarrow>
               if commit_falha amb then erro_bd amb st caminho_salvamento
               else (Jsonify [(''message'', JStr msg_sucesso), (''cpf'', JStr cpf_v),
                              (''nome'', JStr nome_v), (''nome_escola'', json_of nome_escola)] 200,
                     st\<lparr>tabela := tabela st @
                          [\<lparr>id_prof = novo_id (tabela st), nome = nome_v, cpf = cpf_v,
                            escola_id = e, caminho_foto = caminho_salvamento\<rparr>]\<rparr>))"

definition processar_cadastro :: "ambiente \<Rightarrow> estado \<Rightarrow> requisicao \<Rightarrow> resposta \<times> estado" where
  \<comment> \<open>a form field is false when it is missing or empty, the upload when it is missing or its
      file name is empty\<close>
  "processar_cadastro amb st req =
     (case (form_nome req, form_cpf req, form_escola_id req, files_foto req) of
        (Some nome_v, Some cpf_v, Some escola_id_v, Some foto) \<Rightarrow>
          if \<not> (nome_v \<noteq> [] \<and> cpf_v \<noteq> [] \<and> escola_id_v \<noteq> [] \<and> filename foto \<noteq> [])
          then (mensagem msg_campos_obrigatorios 400, st)
          else if \<not> (length cpf_v = 11 \<and> str_isdigit cpf_v)
          then (mensagem msg_cpf_invalido 400, st)
          else (case salvar_arquivo amb (disco st) cpf_v escola_id_v foto of
                  (None, fs) \<Rightarrow> (mensagem msg_erro_upload 500, st\<lparr>disco := fs\<rparr>)
                | (Some caminho_salvamento, fs) \<Rightarrow>
                    armazenar amb (st\<lparr>disco := fs\<rparr>) nome_v cpf_v escola_id_v
                      (form_nome_escola req) caminho_salvamento)
      | _ \<Rightarrow> (mensagem msg_campos_obrigatorios 400, st))"

section \<open>The route \<open>/excluir/<id>\<close>\<close>

definition remover_foto :: "ambiente \<Rightarrow> sistema_arquivos \<Rightarrow> string \<Rightarrow> sistema_arquivos" where
  \<comment> \<open>the removal of the photo and of its directory when that is left empty; every failure
      inside the \<open>try\<close> is printed and ignored\<close>
  "remover_foto amb fs caminho =
     (if os_path_exists fs caminho then
        (case os_remove amb fs caminho of
           None \<Rightarrow> fs
         | Some fs1 \<Rightarrow>
             (let diretorio_pai = os_path_dirname caminho
              in case os_listdir fs1 diretorio_pai of
                   None \<Rightarrow> fs1
                 | Some entradas \<Rightarrow>
                     if entradas = [] then
                       (case os_rmdir amb fs1 diretorio_pai of None \<Rightarrow> fs1 | Some fs2 \<Rightarrow> fs2)
                     else fs1))
      else fs)"

definition excluir_professor :: "ambiente \<Rightarrow> estado \<Rightarrow> nat \<Rightarrow> resposta \<times> estado" where
  "excluir_professor amb st professor_id =
     (if consulta_falha amb then (Excecao, st)
      else case find (\<lambda>p. id_prof p = professor_id) (tabela st) of
             None \<Rightarrow> (Abort 404, st)
           | Some prof \<Rightarrow>
               (let fs = remover_foto amb (disco st) (caminho_foto prof)
                in if commit_falha amb
                   then (Texto ''Erro interno ao deletar o cadastro.'' 500, st\<lparr>disco := fs\<rparr>)
                   else (Redirect ''/lista'', \<lparr>tabela = remove1 prof (tabela st), disco = fs\<rparr>)))"

section \<open>Sequences of requests\<close>

datatype operacao = Cadastro ambiente requisicao | Exclusao ambiente nat

fun passo :: "estado \<Rightarrow> operacao \<Rightarrow> estado" where
  "passo st (Cadastro amb req) = snd (processar_cadastro amb st req)"
| "passo st (Exclusao amb professor_id) = snd (excluir_professor amb st professor_id)"

definition executar :: "estado \<Rightarrow> operacao list \<Rightarrow> estado" where
  "executar st ops = foldl passo st ops"

definition fotos_existem :: "estado \<Rightarrow> bool" where
  \<comment> \<open>every row's \<open>caminho_foto\<close> names a file of the disk\<close>
  "fotos_existem st = list_all (\<lambda>p. isfile (disco st) (caminho_foto p)) (tabela st)"

definition cpf_cadastrado :: "estado \<Rightarrow> requisicao \<Rightarrow> bool" where
  \<comment> \<open>the request carries the \<open>cpf\<close> of a row of the table\<close>
  "cpf_cadastrado st req =
     (case form_cpf req of None \<Rightarrow> False | Some c \<Rightarrow> find (\<lambda>p. cpf p = c) (tabela st) \<noteq> None)"

fun sem_reenvio_nem_falha :: "estado \<Rightarrow> operacao list \<Rightarrow> bool" where
  \<comment> \<open>no \<open>/cadastro\<close> request of the sequence repeats a \<open>cpf\<close> on record when it is made, and
      the commit of no \<open>/excluir\<close> request fails\<close>
  "sem_reenvio_nem_falha st [] = True"
| "sem_reenvio_nem_falha st (Cadastro amb req # ops) =
     (\<not> cpf_cadastrado st req \<and> sem_reenvio_nem_falha (passo st (Cadastro amb req)) ops)"
| "sem_reenvio_nem_falha st (Exclusao amb i # ops) =
     (\<not> commit_falha amb \<and> sem_reenvio_nem_falha (passo st (Exclusao amb i)) ops)"

definition invariante :: "estado \<Rightarrow> bool" where
  \<comment> \<open>every row has its photo on disk, under a file name that begins with its \<open>cpf\<close>, and no
      two rows have the same \<open>cpf\<close>\<close>
  "invariante st =
     (list_all (\<lambda>p. isfile (disco st) (caminho_foto p)
                     \<and> take 11 (os_path_basename (caminho_foto p)) = cpf p) (tabela st)
      \<and> distinct (map cpf (tabela st)))"

section \<open>Sample requests\<close>

definition amb_ok :: ambiente where
  "amb_ok = \<lparr>max_str_digits = 4300, save_io = Gravou, remove_falha = False, rmdir_falha = False,
             consulta_falha = False, commit_falha = False\<rparr>"

definition estado_vazio :: estado where
  "estado_vazio = \<lparr>tabela = [], disco = \<lparr>arquivos = [], pastas = []\<rparr>\<rparr>"

definition req_ana :: requisicao where
  "req_ana = \<lparr>form_nome = Some ''Ana Silva'', form_cpf = Some ''12345678901'',
              form_escola_id = Some ''101'', form_nome_escola = None,
              files_foto = Some \<lparr>filename = ''foto.JPG'', stream = ''abc''\<rparr>\<rparr>"

definition prof_ana :: professor where
  "prof_ana = \<lparr>id_prof = 1, nome = ''Ana Silva'', cpf = ''12345678901'', escola_id = 101,
               caminho_foto = ''uploads/Boa_Vista/12345678901.jpg''\<rparr>"

definition estado_ana :: estado where
  "estado_ana = \<lparr>tabela = [prof_ana],
     disco = \<lparr>arquivos = [(''uploads/Boa_Vista/12345678901.jpg'', ''abc'')],
               pastas = [''uploads'', ''uploads/Boa_Vista'']\<rparr>\<rparr>"

definition cpf_sobrescrito :: string where
  "cpf_sobrescrito = ''1234567890'' @ [CHR 0xB2]"

definition req_sobrescrito :: requisicao where
  "req_sobrescrito = req_ana\<lparr>form_cpf := Some cpf_sobrescrito\<rparr>"

definition req_reenvio :: requisicao where
  "req_reenvio = req_ana\<lparr>files_foto := Some \<lparr>filename = ''outra.jpg'', stream = ''zzz''\<rparr>\<rparr>"

definition req_abc :: requisicao where
  "req_abc = req_ana\<lparr>form_escola_id := Some ''abc''\<rparr>"

definition amb_commit_falha :: ambiente where
  "amb_commit_falha = amb_ok\<lparr>commit_falha := True\<rparr>"

definition prof_bia :: professor where
  "prof_bia = \<lparr>id_prof = 2, nome = ''Bia Souza'', cpf = ''12345678902'', escola_id = 102,
               caminho_foto = ''uploads/Boa_Vista/12345678902.png''\<rparr>"

definition estado_ana_bia :: estado where
  "estado_ana_bia = \<lparr>tabela = [prof_ana, prof_bia],
     disco = \<lparr>arquivos = [(''uploads/Boa_Vista/12345678901.jpg'', ''abc''),
                          (''uploads/Boa_Vista/12345678902.png'', ''def'')],
               pastas = [''uploads'', ''uploads/Boa_Vista'']\<rparr>\<rparr>"

definition req_bia :: requisicao where
  "req_bia = \<lparr>form_nome = Some ''Bia Souza'', form_cpf = Some ''12345678902'',
              form_escola_id = Some ''102'', form_nome_escola = Some ''CE Professora'',
              files_foto = Some \<lparr>filename = ''bia.png'', stream = ''def''\<rparr>\<rparr>"

definition req_ana_escola :: requisicao where
  "req_ana_escola = req_ana\<lparr>form_nome_escola := Some ''Escola Que Nao Existe''\<rparr>"

definition prof_caio :: professor where
  "prof_caio = \<lparr>id_prof = 2, nome = ''Caio Lima'', cpf = ''12345678903'', escola_id = 107,
                caminho_foto = ''uploads/Pacaraima/12345678903.jpg''\<rparr>"

definition estado_ana_caio :: estado where
  "estado_ana_caio = \<lparr>tabela = [prof_ana, prof_caio],
     disco = \<lparr>arquivos = [(''uploads/Boa_Vista/12345678901.jpg'', ''abc''),
                          (''uploads/Pacaraima/12345678903.jpg'', ''ghi'')],
               pastas = [''uploads'', ''uploads/Boa_Vista'', ''uploads/Pacaraima'']\<rparr>\<rparr>"

section \<open>Strings and paths\<close>

lemma chr_lower_slash: "chr_lower c = CHR ''/'' \<longleftrightarrow> c = CHR ''/''"
  by (auto simp: chr_lower_def maiusculas_def minusculas_def split: option.splits if_splits)

lemma str_lower_slash: "CHR ''/'' \<in> set (str_lower s) \<longleftrightarrow> CHR ''/'' \<in> set s"
proof -
  have "CHR ''/'' \<in> chr_lower ` set s \<longleftrightarrow> CHR ''/'' \<in> set s"
    using chr_lower_slash by (metis (no_types, lifting) image_iff)
  then show ?thesis by (simp add: str_lower_def)
qed

lemma chr_isdigit_not_slash: "chr_isdigit c \<Longrightarrow> c \<noteq> CHR ''/''"
  by (auto simp: chr_isdigit_def ord_def)

lemma str_isdigit_no_slash: "str_isdigit s \<Longrightarrow> CHR ''/'' \<notin> set s"
  by (auto simp: str_isdigit_def list_all_iff dest: chr_isdigit_not_slash)

lemma rfind_absent: "c \<notin> set s \<Longrightarrow> rfind s c = - 1"
  by (simp add: rfind_def)

lemma rfind_last: "c \<notin> set f \<Longrightarrow> rfind (d @ c # f) c = int (length d)"
proof -
  assume a: "c \<notin> set f"
  have "takeWhile (\<lambda>x. x \<noteq> c) (rev f @ c # rev d) = rev f @ takeWhile (\<lambda>x. x \<noteq> c) (c # rev d)"
    using a by (intro takeWhile_append2) auto
  then show ?thesis by (simp add: rfind_def)
qed

lemma drop_after_rfind: "c \<notin> set (drop (nat (rfind s c + 1)) s)"
proof (cases "c \<in> set s")
  case True
  then obtain d f where s: "s = d @ c # f" and f: "c \<notin> set f"
    by (meson split_list_last)
  have "nat (rfind s c + 1) = Suc (length d)"
    unfolding s rfind_last[OF f] by simp
  then show ?thesis using f by (simp add: s)
next
  case False
  then show ?thesis by (meson in_set_dropD)
qed

lemma splitext_ext_no_slash: "CHR ''/'' \<notin> set (snd (os_path_splitext p))"
proof -
  have "CHR ''/'' \<notin> set (drop (nat (rfind p (CHR ''.''))) p)" if "rfind p (CHR ''.'') > rfind p (CHR ''/'')"
  proof -
    have "nat (rfind p (CHR ''/'') + 1) \<le> nat (rfind p (CHR ''.''))" using that by simp
    then have "set (drop (nat (rfind p (CHR ''.''))) p) \<subseteq> set (drop (nat (rfind p (CHR ''/'') + 1)) p)"
      by (metis set_drop_subset_set_drop)
    then show ?thesis using drop_after_rfind[of "CHR ''/''" p] by blast
  qed
  then show ?thesis by (auto simp: os_path_splitext_def Let_def)
qed

lemma rstrip_snoc: "x \<notin> set cs \<Longrightarrow> rstrip (s @ [x]) cs = s @ [x]"
  by (simp add: rstrip_def)

lemma rstrip_id: "s \<noteq> [] \<Longrightarrow> last s \<noteq> x \<Longrightarrow> rstrip s [x] = s"
  by (cases s rule: rev_cases) (auto simp: rstrip_def)

lemma dirname_join:
  assumes "CHR ''/'' \<notin> set f" "d \<noteq> []" "last d \<noteq> CHR ''/''"
  shows "os_path_dirname (d @ CHR ''/'' # f) = d"
proof -
  have r: "rfind (d @ CHR ''/'' # f) (CHR ''/'') = int (length d)"
    using assms(1) by (rule rfind_last)
  have t: "take (nat (int (length d) + 1)) (d @ CHR ''/'' # f) = d @ ''/''"
    by (simp add: nat_add_distrib)
  have ne: "d @ ''/'' \<noteq> replicate (length (d @ ''/'')) (CHR ''/'')"
  proof
    assume "d @ ''/'' = replicate (length (d @ ''/'')) (CHR ''/'')"
    then have "set (d @ ''/'') \<subseteq> {CHR ''/''}"
      by (metis set_replicate_conv_if empty_subsetI order_refl)
    moreover have "last d \<in> set (d @ ''/'')" using assms(2) by simp
    ultimately have "last d = CHR ''/''" by blast
    with assms(3) show False by simp
  qed
  have s: "rstrip (d @ ''/'') ''/'' = d"
    using assms(2,3) by (cases d rule: rev_cases) (auto simp: rstrip_def)
  show ?thesis unfolding os_path_dirname_def r t Let_def using ne s by simp
qed

lemma prefixos_no_slash: "CHR ''/'' \<notin> set m \<Longrightarrow> prefixos acc m = [acc @ m]"
  by (induction m arbitrary: acc) auto

subsection \<open>A numeral \<open>int\<close> accepts is within the limit of \<open>str\<close>\<close>

lemma digits_value_snoc:
  "digits_value (ds @ [c]) = digits_value ds * 10 + (int (ord c) - 48)"
  by (simp add: digits_value_def)

lemma digits_value_bounds:
  "list_all chr_isdecimal ds \<Longrightarrow> 0 \<le> digits_value ds \<and> digits_value ds < 10 ^ length ds"
proof (induction ds rule: rev_induct)
  case Nil
  then show ?case by (simp add: digits_value_def)
next
  case (snoc c ds)
  then have ih: "0 \<le> digits_value ds" "digits_value ds < 10 ^ length ds" by simp_all
  have c: "0 \<le> int (ord c) - 48" "int (ord c) - 48 \<le> 9"
    using snoc.prems by (auto simp: chr_isdecimal_def)
  have "digits_value ds + 1 \<le> 10 ^ length ds" using ih(2) by simp
  then have "(digits_value ds + 1) * 10 \<le> 10 ^ length ds * 10" by (rule mult_right_mono) simp
  then show ?case unfolding digits_value_snoc using ih(1) c by (simp add: algebra_simps)
qed

lemma length_str_nat: "0 < k \<Longrightarrow> n < 10 ^ k \<Longrightarrow> length (str_nat n) \<le> k"
proof (induction k arbitrary: n)
  case 0
  then show ?case by simp
next
  case (Suc k)
  show ?case
  proof (cases "n < 10")
    case True
    then show ?thesis by (subst str_nat.simps) simp
  next
    case False
    then have k: "0 < k" using Suc.prems(2) by (cases k) auto
    have "n div 10 < 10 ^ k" using Suc.prems(2) by (simp add: less_mult_imp_div_less mult.commute)
    from Suc.IH[OF k this] False show ?thesis by (subst str_nat.simps) simp
  qed
qed

lemma py_int_within_limit:
  assumes "py_int lim s = Some i"
  shows "py_str lim i = Some (str_int i)"
proof -
  define u where "u = dropWhile chr_int_space (rev (dropWhile chr_int_space (rev s)))"
  define r where "r = (if u \<noteq> [] \<and> (hd u = CHR ''-'' \<or> hd u = CHR ''+'') then tl u else u)"
  define ds where "ds = filter chr_isdecimal r"
  from assms have g: "digit_group r" and l: "\<not> (0 < lim \<and> lim < length ds)"
    and i: "i = digits_value ds \<or> i = - digits_value ds"
    by (auto simp: py_int_def Let_def u_def r_def ds_def split: if_splits)
  have "hd r \<in> set ds" using g by (cases r) (auto simp: digit_group_def ds_def)
  then have ne: "0 < length ds" by (cases ds) auto
  have b: "0 \<le> digits_value ds" "digits_value ds < 10 ^ length ds"
    using digits_value_bounds[of ds] by (simp_all add: ds_def list_all_iff)
  have "nat \<bar>i\<bar> = nat (digits_value ds)" using i b(1) by auto
  moreover have "nat (digits_value ds) < 10 ^ length ds"
    using b by (simp add: nat_less_iff)
  ultimately have "length (str_nat (nat \<bar>i\<bar>)) \<le> length ds"
    using length_str_nat[OF ne] by simp
  then show ?thesis using l by (auto simp: py_str_def)
qed

section \<open>The folder of a school\<close>

lemmas py_defs = ord_def chr_isspace_def rstrip_def strip_def split_def
  os_path_join_def nfkd_ascii_def filename_ascii_keep_def secure_filename_def

lemma secure_filename_table:
  "secure_filename ''Boa Vista'' = ''Boa_Vista''"
  "secure_filename (''Caracara'' @ [CHR 0xED]) = ''Caracarai''"
  "secure_filename (''Rorain'' @ [CHR 0xF3] @ ''polis'') = ''Rorainopolis''"
  "secure_filename (''Cant'' @ [CHR 0xE1]) = ''Canta''"
  "secure_filename ''Pacaraima'' = ''Pacaraima''"
  "secure_filename ''Desconhecido'' = ''Desconhecido''"
  by (simp_all add: py_defs)

lemma municipio_cases:
  "municipio (get_info_escola lim x) \<in> {''Boa Vista'', ''Caracara'' @ [CHR 0xED],
      ''Rorain'' @ [CHR 0xF3] @ ''polis'', ''Cant'' @ [CHR 0xE1], ''Pacaraima'', ''Desconhecido''}"
proof (cases "int_of_valor lim x")
  case None
  then show ?thesis by (simp add: get_info_escola_def)
next
  case (Some i)
  show ?thesis
  proof (cases "map_of ESCOLA_MAPA i")
    case None
    with Some show ?thesis by (simp add: get_info_escola_def split: option.splits)
  next
    case (Some info)
    then have "(i, info) \<in> set ESCOLA_MAPA" by (rule map_of_SomeD)
    then have "municipio info \<in> {''Boa Vista'', ''Caracara'' @ [CHR 0xED],
      ''Rorain'' @ [CHR 0xF3] @ ''polis'', ''Cant'' @ [CHR 0xE1], ''Pacaraima'', ''Desconhecido''}"
      by (auto simp: ESCOLA_MAPA_def)
    with Some \<open>int_of_valor lim x = Some i\<close> show ?thesis by (simp add: get_info_escola_def)
  qed
qed

lemma nome_municipio_cases:
  "secure_filename (municipio (get_info_escola lim x)) \<in>
     {''Boa_Vista'', ''Caracarai'', ''Rorainopolis'', ''Canta'', ''Pacaraima'', ''Desconhecido''}"
  using municipio_cases[of lim x] secure_filename_table by auto

lemma nome_municipio_ok:
  "secure_filename (municipio (get_info_escola lim x)) \<noteq> []"
  "CHR ''/'' \<notin> set (secure_filename (municipio (get_info_escola lim x)))"
  using nome_municipio_cases[of lim x] by auto

lemma pasta_municipio_eq:
  "pasta_municipio_de (municipio (get_info_escola lim x))
     = ''uploads/'' @ secure_filename (municipio (get_info_escola lim x))"
  using nome_municipio_cases[of lim x]
  by (auto simp: pasta_municipio_de_def os_path_join_def UPLOAD_FOLDER_def)

lemma isdigit_hd: "str_isdigit c \<Longrightarrow> c \<noteq> [] \<and> hd c \<noteq> CHR ''/''"
  using str_isdigit_no_slash[of c] by (cases c) (auto simp: str_isdigit_def)

lemma caminho_salvamento_eq:
  assumes "str_isdigit c"
  shows "caminho_salvamento_de (municipio (get_info_escola lim x)) c e
     = ''uploads/'' @ secure_filename (municipio (get_info_escola lim x)) @ ''/'' @ c @ e"
proof -
  let ?m = "secure_filename (municipio (get_info_escola lim x))"
  have m: "?m \<noteq> []" "CHR ''/'' \<notin> set ?m" by (rule nome_municipio_ok)+
  then have l: "last (''uploads/'' @ ?m) \<noteq> CHR ''/''" by (metis last_appendR last_in_set)
  have h: "c @ e \<noteq> [] \<and> hd (c @ e) \<noteq> CHR ''/''" using isdigit_hd[OF assms] by simp
  show ?thesis
    unfolding caminho_salvamento_de_def pasta_municipio_eq os_path_join_def
    using l h by simp
qed

lemma salvar_arquivo_cases:
  assumes "salvar_arquivo amb fs c e foto = (r, fs')"
  defines "cam \<equiv> caminho_salvamento_de (municipio (get_info_escola (max_str_digits amb) (VStr e))) c
                    (str_lower (snd (os_path_splitext (filename foto))))"
  shows "(r = None \<and> (arquivos fs' = arquivos fs \<or> (\<exists>parte. arquivos fs' = AList.update cam parte (arquivos fs))))
       \<or> (r = Some cam \<and> arquivos fs' = AList.update cam (stream foto) (arquivos fs))"
  using assms(1) unfolding cam_def salvar_arquivo_def Let_def os_makedirs_def save_def
  by (auto split: option.splits if_splits resultado_save.splits prod.splits bool.splits)

section \<open>Saving the photo\<close>

lemma last_pasta: "m \<noteq> [] \<Longrightarrow> CHR ''/'' \<notin> set m \<Longrightarrow> last (''uploads/'' @ m) \<noteq> CHR ''/''"
  by (metis last_appendR last_in_set)

lemma makedirs_pasta:
  assumes "m \<noteq> []" "CHR ''/'' \<notin> set m" and d: "d = ''uploads/'' @ m"
  shows "os_makedirs fs d =
     (if isdir fs d \<or> isfile fs ''uploads'' \<or> isfile fs d then None
      else Some (fs\<lparr>pastas := pastas fs @ filter (\<lambda>k. k \<notin> set (pastas fs)) [''uploads'', d]\<rparr>))"
proof -
  have "d \<noteq> []" "last d \<noteq> CHR ''/''" using last_pasta[OF assms(1,2)] by (simp_all add: d)
  then have r: "rstrip d ''/'' = d" by (rule rstrip_id)
  have p: "prefixos [] d = [''uploads'', d]"
    using assms(2) by (simp add: prefixos_no_slash d)
  show ?thesis unfolding os_makedirs_def r p Let_def using \<open>d \<noteq> []\<close> by simp
qed

lemma isdir_pasta:
  assumes "m \<noteq> []" "CHR ''/'' \<notin> set m" and d: "d = ''uploads/'' @ m"
  shows "isdir fs d \<longleftrightarrow> d \<in> set (pastas fs)"
proof -
  have "d \<noteq> []" "last d \<noteq> CHR ''/''" using last_pasta[OF assms(1,2)] by (simp_all add: d)
  then have r: "rstrip d ''/'' = d" by (rule rstrip_id)
  show ?thesis unfolding isdir_def r using \<open>d \<noteq> []\<close> by simp
qed

lemma isdir_caminho:
  assumes "str_isdigit c" "CHR ''/'' \<notin> set e" and p: "p = d @ ''/'' @ c @ e"
  shows "isdir fs p \<longleftrightarrow> p \<in> set (pastas fs)"
proof -
  have ne: "c @ e \<noteq> []" using assms(1) by (simp add: str_isdigit_def)
  then have "last p = last (c @ e)" by (auto simp: p)
  moreover have "last (c @ e) \<in> set (c @ e)" using ne by (rule last_in_set)
  moreover have "CHR ''/'' \<notin> set (c @ e)" using assms str_isdigit_no_slash by simp
  ultimately have "last p \<noteq> CHR ''/''" by metis
  moreover have "p \<noteq> []" by (simp add: p)
  ultimately have r: "rstrip p ''/'' = p" by (intro rstrip_id)
  show ?thesis unfolding isdir_def r using \<open>p \<noteq> []\<close> by simp
qed

lemma salvar_arquivo_ok:
  fixes amb fs c e foto
  defines "ext \<equiv> str_lower (snd (os_path_splitext (filename foto)))"
  defines "m \<equiv> secure_filename (municipio (get_info_escola (max_str_digits amb) (VStr e)))"
  assumes c: "str_isdigit c" and io: "save_io amb = Gravou"
    and nf: "\<not> isfile fs ''uploads''" "\<not> isfile fs (''uploads/'' @ m)"
    and nd: "''uploads/'' @ m @ ''/'' @ c @ ext \<notin> set (pastas fs)"
  shows "salvar_arquivo amb fs c e foto =
           (Some (''uploads/'' @ m @ ''/'' @ c @ ext),
            \<lparr>arquivos = AList.update (''uploads/'' @ m @ ''/'' @ c @ ext) (stream foto) (arquivos fs),
             pastas = (if ''uploads/'' @ m \<in> set (pastas fs) then pastas fs
                       else pastas fs @ filter (\<lambda>k. k \<notin> set (pastas fs)) [''uploads'', ''uploads/'' @ m])\<rparr>)"
proof -
  define d where "d = ''uploads/'' @ m"
  define cam where "cam = d @ ''/'' @ c @ ext"
  have cam': "''uploads/'' @ m @ ''/'' @ c @ ext = cam" by (simp add: cam_def d_def)
  have m: "m \<noteq> []" "CHR ''/'' \<notin> set m" unfolding m_def by (rule nome_municipio_ok)+
  have e: "CHR ''/'' \<notin> set ext" unfolding ext_def by (simp add: str_lower_slash splitext_ext_no_slash)
  have ce: "CHR ''/'' \<notin> set (c @ ext)" using e str_isdigit_no_slash[OF c] by simp
  have pasta: "pasta_municipio_de (municipio (get_info_escola (max_str_digits amb) (VStr e))) = d"
    unfolding m_def d_def by (rule pasta_municipio_eq)
  have caminho: "caminho_salvamento_de (municipio (get_info_escola (max_str_digits amb) (VStr e))) c ext = cam"
    unfolding cam_def d_def m_def using caminho_salvamento_eq[OF c] by simp
  have dne: "d \<noteq> []" "last d \<noteq> CHR ''/''" using last_pasta[OF m] by (simp_all add: d_def)
  have dn: "os_path_dirname cam = d"
    using dirname_join[OF ce dne] by (simp add: cam_def)
  have camne: "cam \<noteq> ''uploads''" "cam \<noteq> d" "cam \<noteq> []" by (simp_all add: cam_def d_def)
  have idc: "\<And>fs'. isdir fs' cam \<longleftrightarrow> cam \<in> set (pastas fs')"
    by (rule isdir_caminho[OF c e cam_def])
  have idp: "\<And>fs'. isdir fs' d \<longleftrightarrow> d \<in> set (pastas fs')"
    by (rule isdir_pasta[OF m d_def])
  have nd': "cam \<notin> set (pastas fs)" using nd unfolding cam' .
  have nf': "\<not> isfile fs d" using nf(2) unfolding d_def .
  have goal: "salvar_arquivo amb fs c e foto =
           (Some cam, \<lparr>arquivos = AList.update cam (stream foto) (arquivos fs),
             pastas = (if d \<in> set (pastas fs) then pastas fs
                       else pastas fs @ filter (\<lambda>k. k \<notin> set (pastas fs)) [''uploads'', d])\<rparr>)"
  proof (cases "d \<in> set (pastas fs)")
    case True
    then have ex: "os_path_exists fs d" by (simp add: os_path_exists_def idp)
    have sv: "save amb fs cam (stream foto) = (True, fs\<lparr>arquivos := AList.update cam (stream foto) (arquivos fs)\<rparr>)"
      unfolding save_def dn using True nd' io idc idp camne dne by simp
    show ?thesis
      unfolding salvar_arquivo_def Let_def pasta ext_def[symmetric] caminho using ex sv True by simp
  next
    case False
    then have ex: "\<not> os_path_exists fs d" using nf' by (simp add: os_path_exists_def idp)
    define fs1 where "fs1 = fs\<lparr>pastas := pastas fs @ filter (\<lambda>k. k \<notin> set (pastas fs)) [''uploads'', d]\<rparr>"
    have mk: "os_makedirs fs d = Some fs1"
      using makedirs_pasta[OF m d_def, of fs] False nf(1) nf' by (simp add: idp fs1_def)
    have in1: "d \<in> set (pastas fs1)" using False by (simp add: fs1_def)
    have nd1: "cam \<notin> set (pastas fs1)" using nd' camne by (simp add: fs1_def)
    have sv: "save amb fs1 cam (stream foto) = (True, fs1\<lparr>arquivos := AList.update cam (stream foto) (arquivos fs1)\<rparr>)"
      unfolding save_def dn using in1 nd1 io idc[of fs1] idp[of fs1] camne dne by simp
    show ?thesis
      unfolding salvar_arquivo_def Let_def pasta ext_def[symmetric] caminho using ex mk sv False
      by (simp add: fs1_def)
  qed
  show ?thesis using goal unfolding cam_def d_def by simp
qed

section \<open>The sample requests, evaluated\<close>

lemmas int_defs = py_int_def chr_int_space_def ord_def digit_group_def chr_isdecimal_def digits_value_def

lemma py_int_101: "py_int 4300 ''101'' = Some 101"
  by (simp add: int_defs)

lemma info_101: "get_info_escola 4300 (VStr ''101'') = \<lparr>info_nome = ''EE Governador Modelo I'', municipio = ''Boa Vista''\<rparr>"
  by (simp add: get_info_escola_def int_of_valor_def py_int_101 ESCOLA_MAPA_def)

lemma ext_foto: "str_lower (snd (os_path_splitext ''foto.JPG'')) = ''.jpg''"
  by (simp add: os_path_splitext_def rfind_def str_lower_def chr_lower_def maiusculas_def minusculas_def)

lemma isdigit_sobrescrito: "str_isdigit cpf_sobrescrito" "length cpf_sobrescrito = 11"
  "cpf_sobrescrito \<noteq> []"
  by (simp_all add: cpf_sobrescrito_def str_isdigit_def chr_isdigit_def ord_def)

text \<open>
  C5 (the code departs from it). A \<open>cpf\<close> of ten digits and the superscript two (U+00B2) has
  eleven characters, and \<open>str.isdigit\<close> holds of it, though the last one is not a decimal
  digit: the request is not answered with the message of the 11 numeric digits; the photo is
  saved and the row is committed.
\<close>

theorem cpf_sobrescrito_cadastrado:
  "\<not> list_all chr_isdecimal cpf_sobrescrito \<and>
   processar_cadastro amb_ok estado_vazio req_sobrescrito =
     (Jsonify [(''message'', JStr msg_sucesso), (''cpf'', JStr cpf_sobrescrito),
               (''nome'', JStr ''Ana Silva''), (''nome_escola'', JNull)] 200,
      \<lparr>tabela = [\<lparr>id_prof = 1, nome = ''Ana Silva'', cpf = cpf_sobrescrito, escola_id = 101,
                   caminho_foto = ''uploads/Boa_Vista/'' @ cpf_sobrescrito @ ''.jpg''\<rparr>],
       disco = \<lparr>arquivos = [(''uploads/Boa_Vista/'' @ cpf_sobrescrito @ ''.jpg'', ''abc'')],
                 pastas = [''uploads'', ''uploads/Boa_Vista'']\<rparr>\<rparr>)"
proof -
  have nd: "\<not> list_all chr_isdecimal cpf_sobrescrito"
    by (simp add: cpf_sobrescrito_def chr_isdecimal_def ord_def)
  have sv: "salvar_arquivo amb_ok \<lparr>arquivos = [], pastas = []\<rparr> cpf_sobrescrito ''101''
              \<lparr>filename = ''foto.JPG'', stream = ''abc''\<rparr> =
            (Some (''uploads/Boa_Vista/'' @ cpf_sobrescrito @ ''.jpg''),
             \<lparr>arquivos = [(''uploads/Boa_Vista/'' @ cpf_sobrescrito @ ''.jpg'', ''abc'')],
              pastas = [''uploads'', ''uploads/Boa_Vista'']\<rparr>)"
    using salvar_arquivo_ok[of cpf_sobrescrito amb_ok "\<lparr>arquivos = [], pastas = []\<rparr>" "''101''"
             "\<lparr>filename = ''foto.JPG'', stream = ''abc''\<rparr>"]
    by (simp add: isdigit_sobrescrito amb_ok_def info_101 secure_filename_table ext_foto isfile_def)
  have ar: "armazenar amb_ok \<lparr>tabela = [], disco = fs\<rparr> ''Ana Silva'' cpf_sobrescrito ''101'' None p =
      (Jsonify [(''message'', JStr msg_sucesso), (''cpf'', JStr cpf_sobrescrito),
               (''nome'', JStr ''Ana Silva''), (''nome_escola'', JNull)] 200,
       \<lparr>tabela = [\<lparr>id_prof = 1, nome = ''Ana Silva'', cpf = cpf_sobrescrito, escola_id = 101,
                   caminho_foto = p\<rparr>], disco = fs\<rparr>)" for fs p
    by (simp add: armazenar_def amb_ok_def py_int_101 novo_id_def json_of_def)
  have "processar_cadastro amb_ok estado_vazio req_sobrescrito =
     (Jsonify [(''message'', JStr msg_sucesso), (''cpf'', JStr cpf_sobrescrito),
               (''nome'', JStr ''Ana Silva''), (''nome_escola'', JNull)] 200,
      \<lparr>tabela = [\<lparr>id_prof = 1, nome = ''Ana Silva'', cpf = cpf_sobrescrito, escola_id = 101,
                   caminho_foto = ''uploads/Boa_Vista/'' @ cpf_sobrescrito @ ''.jpg''\<rparr>],
       disco = \<lparr>arquivos = [(''uploads/Boa_Vista/'' @ cpf_sobrescrito @ ''.jpg'', ''abc'')],
                 pastas = [''uploads'', ''uploads/Boa_Vista'']\<rparr>\<rparr>)"
    unfolding processar_cadastro_def req_sobrescrito_def req_ana_def estado_vazio_def
    by (simp add: isdigit_sobrescrito sv ar)
  with nd show ?thesis by blast
qed

lemma isdigit_ana: "str_isdigit ''12345678901''"
  by (simp add: str_isdigit_def chr_isdigit_def ord_def)

lemma ext_outra: "str_lower (snd (os_path_splitext ''outra.jpg'')) = ''.jpg''"
  by (simp add: os_path_splitext_def rfind_def str_lower_def chr_lower_def maiusculas_def minusculas_def)

text \<open>
  C1 (the code departs from it). Ana is on record with her photo. A second \<open>/cadastro\<close>
  request with her \<open>cpf\<close>, a school of the same municipality and a photo of the same
  extension is answered with 409, and her row stays; but the upload was saved over her
  photo before the table was read, and the cleanup then removed that file: no file is left
  under the row's \<open>caminho_foto\<close>.
\<close>

theorem reenvio_apaga_foto:
  "processar_cadastro amb_ok estado_vazio req_ana =
     (Jsonify [(''message'', JStr msg_sucesso), (''cpf'', JStr ''12345678901''),
               (''nome'', JStr ''Ana Silva''), (''nome_escola'', JNull)] 200, estado_ana) \<and>
   processar_cadastro amb_ok estado_ana req_reenvio =
     (mensagem msg_cpf_duplicado 409,
      \<lparr>tabela = [prof_ana],
       disco = \<lparr>arquivos = [], pastas = [''uploads'', ''uploads/Boa_Vista'']\<rparr>\<rparr>) \<and>
   caminho_foto prof_ana = ''uploads/Boa_Vista/12345678901.jpg''"
proof -
  have sv1: "salvar_arquivo amb_ok \<lparr>arquivos = [], pastas = []\<rparr> ''12345678901'' ''101''
              \<lparr>filename = ''foto.JPG'', stream = ''abc''\<rparr> =
            (Some ''uploads/Boa_Vista/12345678901.jpg'',
             \<lparr>arquivos = [(''uploads/Boa_Vista/12345678901.jpg'', ''abc'')],
              pastas = [''uploads'', ''uploads/Boa_Vista'']\<rparr>)"
    using salvar_arquivo_ok[of "''12345678901''" amb_ok "\<lparr>arquivos = [], pastas = []\<rparr>" "''101''"
             "\<lparr>filename = ''foto.JPG'', stream = ''abc''\<rparr>"]
    by (simp add: isdigit_ana amb_ok_def info_101 secure_filename_table ext_foto isfile_def)
  have ar1: "armazenar amb_ok \<lparr>tabela = [], disco = fs\<rparr> ''Ana Silva'' ''12345678901'' ''101'' None p =
      (Jsonify [(''message'', JStr msg_sucesso), (''cpf'', JStr ''12345678901''),
               (''nome'', JStr ''Ana Silva''), (''nome_escola'', JNull)] 200,
       \<lparr>tabela = [\<lparr>id_prof = 1, nome = ''Ana Silva'', cpf = ''12345678901'', escola_id = 101,
                   caminho_foto = p\<rparr>], disco = fs\<rparr>)" for fs p
    by (simp add: armazenar_def amb_ok_def py_int_101 novo_id_def json_of_def)
  have p1: "processar_cadastro amb_ok estado_vazio req_ana =
     (Jsonify [(''message'', JStr msg_sucesso), (''cpf'', JStr ''12345678901''),
               (''nome'', JStr ''Ana Silva''), (''nome_escola'', JNull)] 200, estado_ana)"
    unfolding processar_cadastro_def req_ana_def estado_vazio_def estado_ana_def prof_ana_def
    by (simp add: isdigit_ana sv1 ar1)
  have sv2: "salvar_arquivo amb_ok \<lparr>arquivos = [(''uploads/Boa_Vista/12345678901.jpg'', ''abc'')],
               pastas = [''uploads'', ''uploads/Boa_Vista'']\<rparr> ''12345678901'' ''101''
              \<lparr>filename = ''outra.jpg'', stream = ''zzz''\<rparr> =
            (Some ''uploads/Boa_Vista/12345678901.jpg'',
             \<lparr>arquivos = [(''uploads/Boa_Vista/12345678901.jpg'', ''zzz'')],
              pastas = [''uploads'', ''uploads/Boa_Vista'']\<rparr>)"
    using salvar_arquivo_ok[of "''12345678901''" amb_ok "\<lparr>arquivos = [(''uploads/Boa_Vista/12345678901.jpg'', ''abc'')],
               pastas = [''uploads'', ''uploads/Boa_Vista'']\<rparr>" "''101''"
             "\<lparr>filename = ''outra.jpg'', stream = ''zzz''\<rparr>"]
    by (simp add: isdigit_ana amb_ok_def info_101 secure_filename_table ext_outra isfile_def)
  have ar2: "armazenar amb_ok \<lparr>tabela = [prof_ana],
        disco = \<lparr>arquivos = [(''uploads/Boa_Vista/12345678901.jpg'', ''zzz'')],
              pastas = [''uploads'', ''uploads/Boa_Vista'']\<rparr>\<rparr> ''Ana Silva'' ''12345678901'' ''101'' None
          ''uploads/Boa_Vista/12345678901.jpg'' =
      (mensagem msg_cpf_duplicado 409,
       \<lparr>tabela = [prof_ana],
        disco = \<lparr>arquivos = [], pastas = [''uploads'', ''uploads/Boa_Vista'']\<rparr>\<rparr>)"
    by (simp add: armazenar_def amb_ok_def prof_ana_def os_path_exists_def isfile_def os_remove_def)
  have p2: "processar_cadastro amb_ok estado_ana req_reenvio =
     (mensagem msg_cpf_duplicado 409,
      \<lparr>tabela = [prof_ana],
       disco = \<lparr>arquivos = [], pastas = [''uploads'', ''uploads/Boa_Vista'']\<rparr>\<rparr>)"
    unfolding processar_cadastro_def req_reenvio_def req_ana_def estado_ana_def
    by (simp add: isdigit_ana sv2 ar2)
  show ?thesis using p1 p2 by (simp add: prof_ana_def)
qed

section \<open>The two routes\<close>

lemma processar_cadastro_valido:
  assumes "form_nome req = Some n" "form_cpf req = Some c" "form_escola_id req = Some e"
    "files_foto req = Some foto" "n \<noteq> []" "e \<noteq> []" "filename foto \<noteq> []"
    "length c = 11" "str_isdigit c"
  shows "processar_cadastro amb st req =
     (case salvar_arquivo amb (disco st) c e foto of
        (None, fs) \<Rightarrow> (mensagem msg_erro_upload 500, st\<lparr>disco := fs\<rparr>)
      | (Some caminho_salvamento, fs) \<Rightarrow>
          armazenar amb (st\<lparr>disco := fs\<rparr>) n c e (form_nome_escola req) caminho_salvamento)"
proof -
  have "c \<noteq> []" using assms(8) by auto
  then show ?thesis using assms by (simp add: processar_cadastro_def)
qed

lemma erro_bd_remove:
  assumes "isfile (disco st) cam" "cam \<noteq> []" "\<not> remove_falha amb"
  shows "erro_bd amb st cam =
     (mensagem msg_erro_interno 500, st\<lparr>disco := (disco st)\<lparr>arquivos := AList.delete cam (arquivos (disco st))\<rparr>\<rparr>)"
  using assms by (simp add: erro_bd_def os_path_exists_def os_remove_def)

lemma armazenar_falha:
  assumes "\<not> consulta_falha amb" "find (\<lambda>p. cpf p = c) (tabela st) = None"
    "py_int (max_str_digits amb) e = None \<or> commit_falha amb"
  shows "armazenar amb st n c e v cam = erro_bd amb st cam"
  using assms by (auto simp: armazenar_def split: option.splits)

lemma armazenar_sucesso:
  assumes "\<not> consulta_falha amb" "find (\<lambda>p. cpf p = c) (tabela st) = None"
    "py_int (max_str_digits amb) e = Some i" "\<not> commit_falha amb"
  shows "armazenar amb st n c e v cam =
     (Jsonify [(''message'', JStr msg_sucesso), (''cpf'', JStr c), (''nome'', JStr n),
               (''nome_escola'', json_of v)] 200,
      st\<lparr>tabela := tabela st @ [\<lparr>id_prof = novo_id (tabela st), nome = n, cpf = c, escola_id = i,
                                   caminho_foto = cam\<rparr>]\<rparr>)"
  using assms by (simp add: armazenar_def)

lemma armazenar_nome_escola:
  "snd (armazenar amb st n c e v cam) = snd (armazenar amb st n c e w cam)"
  "status (fst (armazenar amb st n c e v cam)) = status (fst (armazenar amb st n c e w cam))"
  by (auto simp: armazenar_def split: option.splits)

lemma status_erro_bd: "status (fst (erro_bd amb st cam)) = 500"
  by (auto simp: erro_bd_def mensagem_def split: option.splits)

lemma armazenar_200:
  assumes "status (fst (armazenar amb st n c e v cam)) = 200"
  shows "fst (armazenar amb st n c e v cam) =
     Jsonify [(''message'', JStr msg_sucesso), (''cpf'', JStr c), (''nome'', JStr n),
              (''nome_escola'', case v of None \<Rightarrow> JNull | Some s \<Rightarrow> JStr s)] 200"
  using assms
  by (auto simp: armazenar_def status_erro_bd mensagem_def json_of_def split: option.splits if_splits)

lemma processar_cadastro_200:
  assumes "status (fst (processar_cadastro amb st req)) = 200"
  obtains n c e cam fs where "form_nome req = Some n" "form_cpf req = Some c"
    "processar_cadastro amb st req = armazenar amb (st\<lparr>disco := fs\<rparr>) n c e (form_nome_escola req) cam"
  using assms
  by (auto simp: processar_cadastro_def mensagem_def split: option.splits prod.splits if_splits)

text \<open>
  C10. The field \<open>nome_escola\<close> of the form takes no part in the processing of a
  \<open>/cadastro\<close> request: whatever it holds, also nothing, the state left and the status
  are the same; and a response of status 200 carries, under \<open>nome_escola\<close>, the string the
  request had in that field, as it came, and \<open>null\<close> when the request had none.
\<close>

theorem nome_escola_devolvido:
  "snd (processar_cadastro amb st (req\<lparr>form_nome_escola := v\<rparr>)) = snd (processar_cadastro amb st req)
   \<and> status (fst (processar_cadastro amb st (req\<lparr>form_nome_escola := v\<rparr>)))
       = status (fst (processar_cadastro amb st req))
   \<and> (status (fst (processar_cadastro amb st req)) = 200 \<longrightarrow>
        (\<exists>n c. form_nome req = Some n \<and> form_cpf req = Some c \<and>
           fst (processar_cadastro amb st req) =
             Jsonify [(''message'', JStr msg_sucesso), (''cpf'', JStr c), (''nome'', JStr n),
                      (''nome_escola'',
                       case form_nome_escola req of None \<Rightarrow> JNull | Some s \<Rightarrow> JStr s)] 200))"
proof (intro conjI impI)
  show "snd (processar_cadastro amb st (req\<lparr>form_nome_escola := v\<rparr>)) = snd (processar_cadastro amb st req)"
    using armazenar_nome_escola(1)
    by (auto simp: processar_cadastro_def split: option.splits prod.splits)
  show "status (fst (processar_cadastro amb st (req\<lparr>form_nome_escola := v\<rparr>)))
       = status (fst (processar_cadastro amb st req))"
    using armazenar_nome_escola(2)
    by (auto simp: processar_cadastro_def split: option.splits prod.splits)
  assume s: "status (fst (processar_cadastro amb st req)) = 200"
  then obtain n c e cam fs where f: "form_nome req = Some n" "form_cpf req = Some c"
    and p: "processar_cadastro amb st req = armazenar amb (st\<lparr>disco := fs\<rparr>) n c e (form_nome_escola req) cam"
    by (rule processar_cadastro_200)
  have "fst (armazenar amb (st\<lparr>disco := fs\<rparr>) n c e (form_nome_escola req) cam) =
     Jsonify [(''message'', JStr msg_sucesso), (''cpf'', JStr c), (''nome'', JStr n),
              (''nome_escola'', case form_nome_escola req of None \<Rightarrow> JNull | Some s \<Rightarrow> JStr s)] 200"
    by (rule armazenar_200) (use s p in simp)
  then show "\<exists>n c. form_nome req = Some n \<and> form_cpf req = Some c \<and>
           fst (processar_cadastro amb st req) =
             Jsonify [(''message'', JStr msg_sucesso), (''cpf'', JStr c), (''nome'', JStr n),
                      (''nome_escola'',
                       case form_nome_escola req of None \<Rightarrow> JNull | Some s \<Rightarrow> JStr s)] 200"
    using f p by simp
qed

lemma py_int_101_lim: "lim = 0 \<or> 3 \<le> lim \<Longrightarrow> py_int lim ''101'' = Some 101"
  by (auto simp: int_defs)

lemma info_101_lim:
  "lim = 0 \<or> 3 \<le> lim \<Longrightarrow>
   get_info_escola lim (VStr ''101'') = \<lparr>info_nome = ''EE Governador Modelo I'', municipio = ''Boa Vista''\<rparr>"
  by (simp add: get_info_escola_def int_of_valor_def py_int_101_lim ESCOLA_MAPA_def)

text \<open>
  C3 (as amended). The request of the scenario (Ana Silva, \<open>cpf\<close> 12345678901, school 101,
  a photo with a file name), on a state with no row of that \<open>cpf\<close> and no file or directory
  in the way, when no call of the environment fails, is answered with 200; the table gains
  one row, of school 101, and the photo is the file
  \<open>uploads/Boa_Vista/12345678901<ext>\<close>, the municipality as \<open>secure_filename\<close> leaves it
  and the extension in lower case.
\<close>

theorem cadastro_ana_silva:
  fixes foto :: file_storage
  defines "cam \<equiv> ''uploads/Boa_Vista/12345678901'' @ str_lower (snd (os_path_splitext (filename foto)))"
  assumes req: "form_nome req = Some ''Ana Silva''" "form_cpf req = Some ''12345678901''"
      "form_escola_id req = Some ''101''" "files_foto req = Some foto" "filename foto \<noteq> []"
    and amb: "save_io amb = Gravou" "\<not> consulta_falha amb" "\<not> commit_falha amb"
      "max_str_digits amb = 0 \<or> 3 \<le> max_str_digits amb"
    and novo: "find (\<lambda>p. cpf p = ''12345678901'') (tabela st) = None"
    and livre: "\<not> isfile (disco st) ''uploads''" "\<not> isfile (disco st) ''uploads/Boa_Vista''"
      "cam \<notin> set (pastas (disco st))"
  shows "\<exists>fs. processar_cadastro amb st req =
           (Jsonify [(''message'', JStr msg_sucesso), (''cpf'', JStr ''12345678901''),
                     (''nome'', JStr ''Ana Silva''), (''nome_escola'', json_of (form_nome_escola req))] 200,
            \<lparr>tabela = tabela st @ [\<lparr>id_prof = novo_id (tabela st), nome = ''Ana Silva'',
                                     cpf = ''12345678901'', escola_id = 101, caminho_foto = cam\<rparr>],
             disco = fs\<rparr>)
         \<and> map_of (arquivos fs) cam = Some (stream foto)"
proof -
  define ext where "ext = str_lower (snd (os_path_splitext (filename foto)))"
  have m: "secure_filename (municipio (get_info_escola (max_str_digits amb) (VStr ''101''))) = ''Boa_Vista''"
    using info_101_lim[OF amb(4)] by (simp add: secure_filename_table)
  have camd: "''uploads/'' @ ''Boa_Vista'' @ ''/'' @ ''12345678901'' @ ext = cam"
    by (simp add: cam_def ext_def)
  obtain fs where sv: "salvar_arquivo amb (disco st) ''12345678901'' ''101'' foto = (Some cam, fs)"
    and fs: "arquivos fs = AList.update cam (stream foto) (arquivos (disco st))"
    using salvar_arquivo_ok[OF isdigit_ana amb(1), of "disco st" "''101''" foto]
      livre unfolding m ext_def[symmetric] camd by simp
  have ar: "armazenar amb (st\<lparr>disco := fs\<rparr>) ''Ana Silva'' ''12345678901'' ''101'' (form_nome_escola req) cam =
     (Jsonify [(''message'', JStr msg_sucesso), (''cpf'', JStr ''12345678901''), (''nome'', JStr ''Ana Silva''),
               (''nome_escola'', json_of (form_nome_escola req))] 200,
      st\<lparr>disco := fs\<rparr>\<lparr>tabela := tabela (st\<lparr>disco := fs\<rparr>) @
          [\<lparr>id_prof = novo_id (tabela (st\<lparr>disco := fs\<rparr>)), nome = ''Ana Silva'', cpf = ''12345678901'',
            escola_id = 101, caminho_foto = cam\<rparr>]\<rparr>)"
    by (rule armazenar_sucesso) (use amb novo py_int_101_lim in simp_all)
  have "processar_cadastro amb st req =
     armazenar amb (st\<lparr>disco := fs\<rparr>) ''Ana Silva'' ''12345678901'' ''101'' (form_nome_escola req) cam"
    using processar_cadastro_valido[OF req(1-4) _ _ req(5) _ isdigit_ana, of amb st] sv by simp
  then have "processar_cadastro amb st req =
           (Jsonify [(''message'', JStr msg_sucesso), (''cpf'', JStr ''12345678901''),
                     (''nome'', JStr ''Ana Silva''), (''nome_escola'', json_of (form_nome_escola req))] 200,
            \<lparr>tabela = tabela st @ [\<lparr>id_prof = novo_id (tabela st), nome = ''Ana Silva'',
                                     cpf = ''12345678901'', escola_id = 101, caminho_foto = cam\<rparr>],
             disco = fs\<rparr>)"
    unfolding ar by simp
  moreover have "map_of (arquivos fs) cam = Some (stream foto)"
    by (simp add: fs update_conv')
  ultimately show ?thesis by blast
qed

lemma salvar_arquivo_Some:
  assumes "salvar_arquivo amb fs0 c e foto = (Some cam, fs)" "str_isdigit c"
  shows "arquivos fs = AList.update cam (stream foto) (arquivos fs0)" "cam \<noteq> []" "isfile fs cam"
proof -
  let ?cam = "caminho_salvamento_de (municipio (get_info_escola (max_str_digits amb) (VStr e))) c
                    (str_lower (snd (os_path_splitext (filename foto))))"
  from salvar_arquivo_cases[OF assms(1)]
  have c: "cam = ?cam" and a: "arquivos fs = AList.update ?cam (stream foto) (arquivos fs0)" by auto
  show "arquivos fs = AList.update cam (stream foto) (arquivos fs0)" using a c by simp
  then show "isfile fs cam" by (simp add: isfile_def update_conv')
  show "cam \<noteq> []" unfolding c caminho_salvamento_eq[OF assms(2)] by simp
qed

text \<open>
  C6. A \<open>/cadastro\<close> request that passes the validation, whose photo was saved, whose
  \<open>cpf\<close> is not on record, and whose insertion fails (the conversion of \<open>escola_id\<close> or
  the commit), is answered with the 500 of the second \<open>try\<close> block when \<open>os.remove\<close>
  does not fail: the table is the one before (rollback), the saved photo is removed, and the
  disk holds no file it did not hold before the request.
\<close>

theorem falha_ao_inserir:
  assumes req: "form_nome req = Some n" "form_cpf req = Some c" "form_escola_id req = Some e"
      "files_foto req = Some foto" "n \<noteq> []" "e \<noteq> []" "filename foto \<noteq> []"
      "length c = 11" "str_isdigit c"
    and sv: "salvar_arquivo amb (disco st) c e foto = (Some cam, fs)"
    and ins: "\<not> consulta_falha amb" "find (\<lambda>p. cpf p = c) (tabela st) = None"
      "py_int (max_str_digits amb) e = None \<or> commit_falha amb"
    and rm: "\<not> remove_falha amb"
  shows "isfile fs cam
       \<and> processar_cadastro amb st req =
           (mensagem msg_erro_interno 500,
            \<lparr>tabela = tabela st, disco = fs\<lparr>arquivos := AList.delete cam (arquivos fs)\<rparr>\<rparr>)
       \<and> \<not> isfile (fs\<lparr>arquivos := AList.delete cam (arquivos fs)\<rparr>) cam
       \<and> (\<forall>p. isfile (fs\<lparr>arquivos := AList.delete cam (arquivos fs)\<rparr>) p \<longrightarrow> isfile (disco st) p)"
proof -
  note s = salvar_arquivo_Some[OF sv req(9)]
  have "processar_cadastro amb st req = armazenar amb (st\<lparr>disco := fs\<rparr>) n c e (form_nome_escola req) cam"
    using processar_cadastro_valido[OF req, of amb st] sv by simp
  also have "\<dots> = erro_bd amb (st\<lparr>disco := fs\<rparr>) cam"
    by (rule armazenar_falha) (use ins in simp_all)
  also have "\<dots> = (mensagem msg_erro_interno 500,
       st\<lparr>disco := fs\<rparr>\<lparr>disco := (disco (st\<lparr>disco := fs\<rparr>))\<lparr>arquivos := AList.delete cam (arquivos (disco (st\<lparr>disco := fs\<rparr>)))\<rparr>\<rparr>)"
    by (rule erro_bd_remove) (use s rm in simp_all)
  finally have p: "processar_cadastro amb st req =
           (mensagem msg_erro_interno 500,
            \<lparr>tabela = tabela st, disco = fs\<lparr>arquivos := AList.delete cam (arquivos fs)\<rparr>\<rparr>)"
    by simp
  have d: "\<not> isfile (fs\<lparr>arquivos := AList.delete cam (arquivos fs)\<rparr>) cam"
    by (simp add: isfile_def delete_conv')
  have o: "isfile (fs\<lparr>arquivos := AList.delete cam (arquivos fs)\<rparr>) p \<longrightarrow> isfile (disco st) p" for p
    by (simp add: isfile_def delete_conv' s(1) update_conv')
  show ?thesis using s(3) p d o by blast
qed

lemma info_invalido:
  "py_int lim e = None \<Longrightarrow>
   get_info_escola lim (VStr e) = \<lparr>info_nome = ''ID Inv'' @ [CHR 0xE1] @ ''lido'', municipio = ''Desconhecido''\<rparr>"
  by (simp add: get_info_escola_def int_of_valor_def)

text \<open>
  C9 (as amended). A \<open>/cadastro\<close> request that passes the validation, whose \<open>escola_id\<close>
  \<open>int\<close> does not accept and whose \<open>cpf\<close> is not on record, on a disk with nothing in the
  way and an environment whose calls do not fail: the photo is first saved as
  \<open>uploads/Desconhecido/<cpf><ext>\<close>, then the insertion raises, and the answer is the 500
  of the second \<open>try\<close> block, with the photo removed and the table as before.
\<close>

theorem escola_id_nao_inteiro:
  fixes c :: string and foto :: file_storage
  defines "cam \<equiv> ''uploads/Desconhecido/'' @ c @ str_lower (snd (os_path_splitext (filename foto)))"
  assumes req: "form_nome req = Some n" "form_cpf req = Some c" "form_escola_id req = Some e"
      "files_foto req = Some foto" "n \<noteq> []" "e \<noteq> []" "filename foto \<noteq> []"
      "length c = 11" "str_isdigit c"
    and nint: "py_int (max_str_digits amb) e = None"
    and novo: "find (\<lambda>p. cpf p = c) (tabela st) = None"
    and amb: "save_io amb = Gravou" "\<not> consulta_falha amb" "\<not> remove_falha amb"
    and livre: "\<not> isfile (disco st) ''uploads''" "\<not> isfile (disco st) ''uploads/Desconhecido''"
      "cam \<notin> set (pastas (disco st))"
  shows "\<exists>fs. salvar_arquivo amb (disco st) c e foto = (Some cam, fs)
            \<and> map_of (arquivos fs) cam = Some (stream foto)
            \<and> processar_cadastro amb st req =
                (mensagem msg_erro_interno 500,
                 \<lparr>tabela = tabela st, disco = fs\<lparr>arquivos := AList.delete cam (arquivos fs)\<rparr>\<rparr>)
            \<and> \<not> isfile (fs\<lparr>arquivos := AList.delete cam (arquivos fs)\<rparr>) cam"
proof -
  define ext where "ext = str_lower (snd (os_path_splitext (filename foto)))"
  have m: "secure_filename (municipio (get_info_escola (max_str_digits amb) (VStr e))) = ''Desconhecido''"
    using info_invalido[OF nint] by (simp add: secure_filename_table)
  have camd: "''uploads/'' @ ''Desconhecido'' @ ''/'' @ c @ ext = cam"
    by (simp add: cam_def ext_def)
  obtain fs where sv: "salvar_arquivo amb (disco st) c e foto = (Some cam, fs)"
    and fs: "arquivos fs = AList.update cam (stream foto) (arquivos (disco st))"
    using salvar_arquivo_ok[OF req(9) amb(1), of "disco st" e foto]
      livre unfolding m ext_def[symmetric] camd by simp
  have w: "map_of (arquivos fs) cam = Some (stream foto)" by (simp add: fs update_conv')
  have i: "isfile fs cam" using w by (simp add: isfile_def)
  have cne: "cam \<noteq> []" by (simp add: cam_def)
  have "processar_cadastro amb st req = armazenar amb (st\<lparr>disco := fs\<rparr>) n c e (form_nome_escola req) cam"
    using processar_cadastro_valido[OF req, of amb st] sv by simp
  also have "\<dots> = erro_bd amb (st\<lparr>disco := fs\<rparr>) cam"
    by (rule armazenar_falha) (use amb novo nint in simp_all)
  also have "\<dots> = (mensagem msg_erro_interno 500,
       st\<lparr>disco := fs\<rparr>\<lparr>disco := (disco (st\<lparr>disco := fs\<rparr>))\<lparr>arquivos := AList.delete cam (arquivos (disco (st\<lparr>disco := fs\<rparr>)))\<rparr>\<rparr>)"
    by (rule erro_bd_remove) (use i cne amb in simp_all)
  finally have p: "processar_cadastro amb st req =
           (mensagem msg_erro_interno 500,
            \<lparr>tabela = tabela st, disco = fs\<lparr>arquivos := AList.delete cam (arquivos fs)\<rparr>\<rparr>)"
    by simp
  have d: "\<not> isfile (fs\<lparr>arquivos := AList.delete cam (arquivos fs)\<rparr>) cam"
    by (simp add: isfile_def delete_conv')
  show ?thesis using sv w p d by blast
qed

lemma py_int_abc: "py_int lim ''abc'' = None"
  by (simp add: int_defs)

lemma salvar_ana:
  assumes "save_io amb = Gravou" "max_str_digits amb = 4300"
  shows "salvar_arquivo amb \<lparr>arquivos = [], pastas = []\<rparr> ''12345678901'' ''101''
              \<lparr>filename = ''foto.JPG'', stream = ''abc''\<rparr> =
            (Some ''uploads/Boa_Vista/12345678901.jpg'',
             \<lparr>arquivos = [(''uploads/Boa_Vista/12345678901.jpg'', ''abc'')],
              pastas = [''uploads'', ''uploads/Boa_Vista'']\<rparr>)"
  using salvar_arquivo_ok[of "''12345678901''" amb "\<lparr>arquivos = [], pastas = []\<rparr>" "''101''"
             "\<lparr>filename = ''foto.JPG'', stream = ''abc''\<rparr>"] assms
  by (simp add: isdigit_ana info_101 secure_filename_table ext_foto isfile_def)

lemma salvar_abc:
  assumes "save_io amb = Gravou"
  shows "salvar_arquivo amb \<lparr>arquivos = [], pastas = []\<rparr> ''12345678901'' ''abc''
              \<lparr>filename = ''foto.JPG'', stream = ''abc''\<rparr> =
            (Some ''uploads/Desconhecido/12345678901.jpg'',
             \<lparr>arquivos = [(''uploads/Desconhecido/12345678901.jpg'', ''abc'')],
              pastas = [''uploads'', ''uploads/Desconhecido'']\<rparr>)"
  using salvar_arquivo_ok[of "''12345678901''" amb "\<lparr>arquivos = [], pastas = []\<rparr>" "''abc''"
             "\<lparr>filename = ''foto.JPG'', stream = ''abc''\<rparr>"] assms
  by (simp add: isdigit_ana info_invalido py_int_abc secure_filename_table ext_foto isfile_def)

lemma salvar_abc_ana:
  "salvar_arquivo amb_ok (disco estado_ana) ''12345678901'' ''abc''
              \<lparr>filename = ''foto.JPG'', stream = ''abc''\<rparr> =
            (Some ''uploads/Desconhecido/12345678901.jpg'',
             \<lparr>arquivos = [(''uploads/Boa_Vista/12345678901.jpg'', ''abc''),
                          (''uploads/Desconhecido/12345678901.jpg'', ''abc'')],
              pastas = [''uploads'', ''uploads/Boa_Vista'', ''uploads/Desconhecido'']\<rparr>)"
  using salvar_arquivo_ok[of "''12345678901''" amb_ok "disco estado_ana" "''abc''"
             "\<lparr>filename = ''foto.JPG'', stream = ''abc''\<rparr>"]
  by (simp add: isdigit_ana info_invalido py_int_abc secure_filename_table ext_foto isfile_def
        estado_ana_def amb_ok_def)

lemma cadastro_ana:
  "processar_cadastro amb_ok estado_vazio req_ana =
     (Jsonify [(''message'', JStr msg_sucesso), (''cpf'', JStr ''12345678901''),
               (''nome'', JStr ''Ana Silva''), (''nome_escola'', JNull)] 200, estado_ana)"
proof -
  have ar1: "armazenar amb_ok \<lparr>tabela = [], disco = fs\<rparr> ''Ana Silva'' ''12345678901'' ''101'' None p =
      (Jsonify [(''message'', JStr msg_sucesso), (''cpf'', JStr ''12345678901''),
               (''nome'', JStr ''Ana Silva''), (''nome_escola'', JNull)] 200,
       \<lparr>tabela = [\<lparr>id_prof = 1, nome = ''Ana Silva'', cpf = ''12345678901'', escola_id = 101,
                   caminho_foto = p\<rparr>], disco = fs\<rparr>)" for fs p
    by (simp add: armazenar_def amb_ok_def py_int_101 novo_id_def json_of_def)
  show ?thesis
    unfolding processar_cadastro_def req_ana_def estado_vazio_def estado_ana_def prof_ana_def
    by (simp add: isdigit_ana salvar_ana amb_ok_def ar1[unfolded amb_ok_def])
qed

lemma cadastro_abc_ana:
  "processar_cadastro amb_ok estado_ana req_abc =
     (mensagem msg_cpf_duplicado 409,
      \<lparr>tabela = [prof_ana],
       disco = \<lparr>arquivos = [(''uploads/Boa_Vista/12345678901.jpg'', ''abc'')],
                 pastas = [''uploads'', ''uploads/Boa_Vista'', ''uploads/Desconhecido'']\<rparr>\<rparr>)"
proof -
  have ar: "armazenar amb_ok \<lparr>tabela = [prof_ana],
        disco = \<lparr>arquivos = [(''uploads/Boa_Vista/12345678901.jpg'', ''abc''),
                          (''uploads/Desconhecido/12345678901.jpg'', ''abc'')],
              pastas = ps\<rparr>\<rparr> ''Ana Silva'' ''12345678901'' ''abc'' None
          ''uploads/Desconhecido/12345678901.jpg'' =
      (mensagem msg_cpf_duplicado 409,
       \<lparr>tabela = [prof_ana],
        disco = \<lparr>arquivos = [(''uploads/Boa_Vista/12345678901.jpg'', ''abc'')], pastas = ps\<rparr>\<rparr>)" for ps
    by (simp add: armazenar_def amb_ok_def prof_ana_def os_path_exists_def isfile_def os_remove_def)
  have t: "tabela estado_ana = [prof_ana]" by (simp add: estado_ana_def)
  have "processar_cadastro amb_ok estado_ana req_abc =
      armazenar amb_ok (estado_ana\<lparr>disco := \<lparr>arquivos = [(''uploads/Boa_Vista/12345678901.jpg'', ''abc''),
                          (''uploads/Desconhecido/12345678901.jpg'', ''abc'')],
              pastas = [''uploads'', ''uploads/Boa_Vista'', ''uploads/Desconhecido'']\<rparr>\<rparr>)
         ''Ana Silva'' ''12345678901'' ''abc'' None ''uploads/Desconhecido/12345678901.jpg''"
    unfolding processar_cadastro_def req_abc_def req_ana_def
    by (simp add: isdigit_ana salvar_abc_ana)
  also have "estado_ana\<lparr>disco := \<lparr>arquivos = [(''uploads/Boa_Vista/12345678901.jpg'', ''abc''),
                          (''uploads/Desconhecido/12345678901.jpg'', ''abc'')],
              pastas = [''uploads'', ''uploads/Boa_Vista'', ''uploads/Desconhecido'']\<rparr>\<rparr>
       = \<lparr>tabela = [prof_ana], disco = \<lparr>arquivos = [(''uploads/Boa_Vista/12345678901.jpg'', ''abc''),
                          (''uploads/Desconhecido/12345678901.jpg'', ''abc'')],
              pastas = [''uploads'', ''uploads/Boa_Vista'', ''uploads/Desconhecido'']\<rparr>\<rparr>"
    by (simp add: estado_ana_def)
  finally show ?thesis unfolding ar .
qed

theorem escola_id_nao_inteiro_contraexemplo:
  "form_escola_id req_abc = Some ''abc'' \<and> py_int 4300 ''abc'' = None
   \<and> status (fst (processar_cadastro amb_ok estado_ana req_abc)) = 409
   \<and> fst (salvar_arquivo amb_ok (disco estado_vazio) ''12345678901'' ''abc''
             \<lparr>filename = ''foto.JPG'', stream = ''abc''\<rparr>)
       = Some ''uploads/Desconhecido/12345678901.jpg''"
  using cadastro_abc_ana salvar_abc[of amb_ok]
  by (simp add: req_abc_def py_int_abc mensagem_def estado_vazio_def amb_ok_def)

theorem escola_id_nao_inteiro_witness:
  "\<exists>fs. salvar_arquivo amb_ok (disco estado_vazio) ''12345678901'' ''abc''
             \<lparr>filename = ''foto.JPG'', stream = ''abc''\<rparr>
           = (Some ''uploads/Desconhecido/12345678901.jpg'', fs)
       \<and> map_of (arquivos fs) ''uploads/Desconhecido/12345678901.jpg'' = Some ''abc''
       \<and> processar_cadastro amb_ok estado_vazio req_abc =
           (mensagem msg_erro_interno 500,
            \<lparr>tabela = [],
             disco = fs\<lparr>arquivos := AList.delete ''uploads/Desconhecido/12345678901.jpg'' (arquivos fs)\<rparr>\<rparr>)
       \<and> \<not> isfile (fs\<lparr>arquivos := AList.delete ''uploads/Desconhecido/12345678901.jpg'' (arquivos fs)\<rparr>)
              ''uploads/Desconhecido/12345678901.jpg''"
  using escola_id_nao_inteiro[of req_abc "''Ana Silva''" "''12345678901''" "''abc''"
          "\<lparr>filename = ''foto.JPG'', stream = ''abc''\<rparr>" amb_ok estado_vazio]
  by (simp add: req_abc_def req_ana_def amb_ok_def estado_vazio_def isdigit_ana py_int_abc ext_foto
        isfile_def)

theorem falha_ao_inserir_witness:
  "processar_cadastro amb_commit_falha estado_vazio req_ana =
     (mensagem msg_erro_interno 500,
      \<lparr>tabela = [], disco = \<lparr>arquivos = [], pastas = [''uploads'', ''uploads/Boa_Vista'']\<rparr>\<rparr>)"
  using falha_ao_inserir[of req_ana "''Ana Silva''" "''12345678901''" "''101''"
          "\<lparr>filename = ''foto.JPG'', stream = ''abc''\<rparr>" amb_commit_falha estado_vazio
          "''uploads/Boa_Vista/12345678901.jpg''"
          "\<lparr>arquivos = [(''uploads/Boa_Vista/12345678901.jpg'', ''abc'')],
              pastas = [''uploads'', ''uploads/Boa_Vista'']\<rparr>"]
    salvar_ana[of amb_commit_falha]
  by (simp add: req_ana_def amb_commit_falha_def amb_ok_def estado_vazio_def isdigit_ana)

theorem cadastro_ana_silva_witness:
  "\<exists>fs. processar_cadastro amb_ok estado_vazio req_ana =
           (Jsonify [(''message'', JStr msg_sucesso), (''cpf'', JStr ''12345678901''),
                     (''nome'', JStr ''Ana Silva''), (''nome_escola'', JNull)] 200,
            \<lparr>tabela = [\<lparr>id_prof = 1, nome = ''Ana Silva'', cpf = ''12345678901'', escola_id = 101,
                         caminho_foto = ''uploads/Boa_Vista/12345678901.jpg''\<rparr>],
             disco = fs\<rparr>)
         \<and> map_of (arquivos fs) ''uploads/Boa_Vista/12345678901.jpg'' = Some ''abc''"
  using cadastro_ana_silva[of req_ana "\<lparr>filename = ''foto.JPG'', stream = ''abc''\<rparr>" amb_ok estado_vazio]
  by (simp add: req_ana_def amb_ok_def estado_vazio_def ext_foto isfile_def novo_id_def json_of_def)

theorem cadastro_ana_silva_contraexemplo:
  "status (fst (processar_cadastro amb_ok estado_vazio req_ana)) = 200
   \<and> map fst (arquivos (disco (snd (processar_cadastro amb_ok estado_vazio req_ana))))
        = [''uploads/Boa_Vista/12345678901.jpg'']
   \<and> \<not> isfile (disco (snd (processar_cadastro amb_ok estado_vazio req_ana)))
          ''uploads/Boa Vista/12345678901.jpg''"
  by (simp add: cadastro_ana estado_ana_def isfile_def)

theorem nome_escola_devolvido_witness:
  "form_nome_escola req_ana = None
   \<and> fst (processar_cadastro amb_ok estado_vazio req_ana) =
        Jsonify [(''message'', JStr msg_sucesso), (''cpf'', JStr ''12345678901''),
                 (''nome'', JStr ''Ana Silva''), (''nome_escola'', JNull)] 200
   \<and> form_nome_escola req_ana_escola = Some ''Escola Que Nao Existe''
   \<and> fst (processar_cadastro amb_ok estado_vazio req_ana_escola) =
        Jsonify [(''message'', JStr msg_sucesso), (''cpf'', JStr ''12345678901''),
                 (''nome'', JStr ''Ana Silva''), (''nome_escola'', JStr ''Escola Que Nao Existe'')] 200
   \<and> snd (processar_cadastro amb_ok estado_vazio req_ana_escola) = estado_ana"
proof -
  have s: "status (fst (processar_cadastro amb_ok estado_vazio req_ana)) = 200"
    by (simp add: cadastro_ana)
  note t1 = nome_escola_devolvido[where amb = amb_ok and st = estado_vazio and req = req_ana
               and v = "Some ''Escola Que Nao Existe''"]
  have e: "req_ana\<lparr>form_nome_escola := Some ''Escola Que Nao Existe''\<rparr> = req_ana_escola"
    by (simp add: req_ana_escola_def)
  have s2: "status (fst (processar_cadastro amb_ok estado_vazio req_ana_escola)) = 200"
    using t1 s unfolding e by simp
  have st2: "snd (processar_cadastro amb_ok estado_vazio req_ana_escola) = estado_ana"
    using t1 unfolding e by (simp add: cadastro_ana)
  note t2 = nome_escola_devolvido[where amb = amb_ok and st = estado_vazio and req = req_ana_escola
               and v = None]
  have f: "form_nome req_ana_escola = Some ''Ana Silva''" "form_cpf req_ana_escola = Some ''12345678901''"
    "form_nome_escola req_ana_escola = Some ''Escola Que Nao Existe''"
    by (simp_all add: req_ana_escola_def req_ana_def)
  have r2: "fst (processar_cadastro amb_ok estado_vazio req_ana_escola) =
        Jsonify [(''message'', JStr msg_sucesso), (''cpf'', JStr ''12345678901''),
                 (''nome'', JStr ''Ana Silva''), (''nome_escola'', JStr ''Escola Que Nao Existe'')] 200"
    using t2 s2 f by auto
  have n: "form_nome_escola req_ana = None" by (simp add: req_ana_def)
  show ?thesis using r2 st2 f(3) n cadastro_ana by simp
qed

text \<open>
  C8 (as amended). \<open>get_info_escola\<close> has a value for every form field and every integer:
  the name \<open>ID Inv\<close>, U+00E1, \<open>lido\<close> and the municipality \<open>Desconhecido\<close> when
  \<open>int\<close> does not accept the field, the name \<open>ID <n> (N\<close>, U+00E3, \<open>o encontrada)\<close> and
  \<open>Desconhecido\<close> when the integer \<open>n\<close> is not a key of \<open>ESCOLA_MAPA\<close> (for an
  integer that did not come from a form field, when \<open>str\<close> prints it), the entry of the
  table when it is a key; in each case the municipality, and the folder name
  \<open>secure_filename\<close> makes of it, are not empty.
\<close>

theorem get_info_escola_sempre_responde:
  "(int_of_valor lim x = None \<longrightarrow>
      get_info_escola lim x =
        \<lparr>info_nome = ''ID Inv'' @ [CHR 0xE1] @ ''lido'', municipio = ''Desconhecido''\<rparr>)
   \<and> (\<forall>i. int_of_valor lim x = Some i \<and> map_of ESCOLA_MAPA i = None
           \<and> ((\<exists>s. x = VStr s) \<or> py_str lim i \<noteq> None) \<longrightarrow>
      get_info_escola lim x =
        \<lparr>info_nome = ''ID '' @ str_int i @ '' (N'' @ [CHR 0xE3] @ ''o encontrada)'',
         municipio = ''Desconhecido''\<rparr>)
   \<and> (\<forall>i info. int_of_valor lim x = Some i \<and> map_of ESCOLA_MAPA i = Some info \<longrightarrow>
      get_info_escola lim x = info)
   \<and> municipio (get_info_escola lim x) \<noteq> []
   \<and> secure_filename (municipio (get_info_escola lim x)) \<noteq> []"
proof -
  have m: "municipio (get_info_escola lim x) \<noteq> []" using municipio_cases[of lim x] by auto
  have s: "py_str lim i = Some (str_int i)"
    if "int_of_valor lim x = Some i" "(\<exists>s. x = VStr s) \<or> py_str lim i \<noteq> None" for i
    using that py_int_within_limit[of lim _ i]
    by (auto simp: int_of_valor_def py_str_def split: if_splits)
  show ?thesis
    using m nome_municipio_ok(1)[of lim x] s
    by (auto simp: get_info_escola_def split: option.splits)
qed

lemma str_int_9999: "str_int 9999 = ''9999''"
  by (simp add: str_int_def str_nat.simps)

lemma py_int_9999: "py_int 4300 ''9999'' = Some 9999"
  by (simp add: int_defs)

lemma map_9999: "map_of ESCOLA_MAPA 9999 = None"
  by (simp add: ESCOLA_MAPA_def)

theorem get_info_escola_sempre_responde_witness:
  "get_info_escola 4300 (VStr ''abc'') =
     \<lparr>info_nome = ''ID Inv'' @ [CHR 0xE1] @ ''lido'', municipio = ''Desconhecido''\<rparr>
   \<and> get_info_escola 4300 (VStr ''9999'') =
     \<lparr>info_nome = ''ID 9999 (N'' @ [CHR 0xE3] @ ''o encontrada)'', municipio = ''Desconhecido''\<rparr>
   \<and> get_info_escola 4300 (VInt 101) =
     \<lparr>info_nome = ''EE Governador Modelo I'', municipio = ''Boa Vista''\<rparr>"
  using get_info_escola_sempre_responde[of 4300 "VStr ''abc''"]
    get_info_escola_sempre_responde[of 4300 "VStr ''9999''"]
    get_info_escola_sempre_responde[of 4300 "VInt 101"]
  by (simp add: int_of_valor_def py_int_abc py_int_9999 map_9999 str_int_9999 ESCOLA_MAPA_def)

theorem get_info_escola_contraexemplo:
  "get_info_escola 4300 (VStr ''abc'') \<noteq> \<lparr>info_nome = ''Invalid ID'', municipio = ''Unknown''\<rparr>
   \<and> municipio (get_info_escola 4300 (VStr ''abc'')) = ''Desconhecido''
   \<and> get_info_escola 4300 (VStr ''9999'') \<noteq> \<lparr>info_nome = ''ID 9999 (not found)'', municipio = ''Unknown''\<rparr>
   \<and> municipio (get_info_escola 4300 (VStr ''9999'')) = ''Desconhecido''"
  by (simp add: get_info_escola_def int_of_valor_def py_int_abc py_int_9999 map_9999 split: option.splits)

text \<open>
  An integer that \<open>str\<close> does not print (more digits than the interpreter's limit) and that
  is not a key of the table gets the first sentinel: the f-string raises the
  \<open>ValueError\<close> that the \<open>try\<close> catches.
\<close>

lemma get_info_escola_alem_do_limite:
  assumes "int_of_valor lim x = Some i" "map_of ESCOLA_MAPA i = None" "py_str lim i = None"
  shows "get_info_escola lim x =
     \<lparr>info_nome = ''ID Inv'' @ [CHR 0xE1] @ ''lido'', municipio = ''Desconhecido''\<rparr>"
  using assms by (simp add: get_info_escola_def)

lemma nome_municipio_seguro:
  "list_all filename_ascii_keep (secure_filename (municipio (get_info_escola lim x)))"
  using nome_municipio_cases[of lim x]
  by (auto simp: filename_ascii_keep_def ord_def)

text \<open>
  C4. The municipality of a \<open>/cadastro\<close> request is always one that \<open>get_info_escola\<close>
  returns, and of each of those \<open>secure_filename\<close> makes a folder name that is not empty
  and has only the characters \<open>A-Z a-z 0-9 _ . -\<close>, so no slash: the case of a name left
  empty does not arise. The path computed for the photo, and the path under which
  \<open>salvar_arquivo\<close> saves it, is \<open>uploads/\<close>, that name, a slash, the \<open>cpf\<close> and the
  extension.
\<close>

theorem caminho_tem_pasta_do_municipio:
  assumes "str_isdigit cpf_v"
  shows "secure_filename (municipio (get_info_escola lim x)) \<noteq> []
       \<and> CHR ''/'' \<notin> set (secure_filename (municipio (get_info_escola lim x)))
       \<and> list_all filename_ascii_keep (secure_filename (municipio (get_info_escola lim x)))
       \<and> caminho_salvamento_de (municipio (get_info_escola lim x)) cpf_v extensao
           = UPLOAD_FOLDER @ secure_filename (municipio (get_info_escola lim x)) @ ''/'' @ cpf_v @ extensao
       \<and> (salvar_arquivo amb fs cpf_v e foto = (Some cam, fs') \<longrightarrow>
            cam = UPLOAD_FOLDER
                    @ secure_filename (municipio (get_info_escola (max_str_digits amb) (VStr e)))
                    @ ''/'' @ cpf_v @ str_lower (snd (os_path_splitext (filename foto))))"
proof -
  have "cam = caminho_salvamento_de (municipio (get_info_escola (max_str_digits amb) (VStr e))) cpf_v
                    (str_lower (snd (os_path_splitext (filename foto))))"
    if "salvar_arquivo amb fs cpf_v e foto = (Some cam, fs')"
    using salvar_arquivo_cases[OF that] by auto
  then show ?thesis
    using nome_municipio_ok[of lim x] nome_municipio_seguro[of lim x]
      caminho_salvamento_eq[OF assms, of lim x extensao]
      caminho_salvamento_eq[OF assms, of "max_str_digits amb" "VStr e"
         "str_lower (snd (os_path_splitext (filename foto)))"]
    by (simp add: UPLOAD_FOLDER_def)
qed

theorem caminho_tem_pasta_do_municipio_witness:
  "caminho_salvamento_de (municipio (get_info_escola 4300 (VStr ''101''))) ''12345678901'' ''.jpg''
     = ''uploads/Boa_Vista/12345678901.jpg''
   \<and> secure_filename (municipio (get_info_escola 4300 (VStr ''abc''))) = ''Desconhecido''
   \<and> fst (salvar_arquivo amb_ok (disco estado_vazio) ''12345678901'' ''abc''
             \<lparr>filename = ''foto.JPG'', stream = ''abc''\<rparr>)
        = Some ''uploads/Desconhecido/12345678901.jpg''"
proof -
  have 1: "caminho_salvamento_de (municipio (get_info_escola 4300 (VStr ''101''))) ''12345678901'' ''.jpg''
     = ''uploads/Boa_Vista/12345678901.jpg''"
    using caminho_tem_pasta_do_municipio[OF isdigit_ana, of 4300 "VStr ''101''" "''.jpg''"]
    by (simp add: info_101 secure_filename_table UPLOAD_FOLDER_def)
  have s: "salvar_arquivo amb_ok (disco estado_vazio) ''12345678901'' ''abc''
             \<lparr>filename = ''foto.JPG'', stream = ''abc''\<rparr>
        = (Some ''uploads/Desconhecido/12345678901.jpg'',
            \<lparr>arquivos = [(''uploads/Desconhecido/12345678901.jpg'', ''abc'')],
              pastas = [''uploads'', ''uploads/Desconhecido'']\<rparr>)"
    using salvar_abc[of amb_ok] by (simp add: amb_ok_def estado_vazio_def)
  have m: "secure_filename (municipio (get_info_escola 4300 (VStr ''abc''))) = ''Desconhecido''"
    by (simp add: info_invalido py_int_abc secure_filename_table)
  have "''uploads/Desconhecido/12345678901.jpg'' = UPLOAD_FOLDER
                    @ secure_filename (municipio (get_info_escola (max_str_digits amb_ok) (VStr ''abc'')))
                    @ ''/'' @ ''12345678901'' @ str_lower (snd (os_path_splitext (filename \<lparr>filename = ''foto.JPG'', stream = ''abc''\<rparr>)))"
    using caminho_tem_pasta_do_municipio[OF isdigit_ana, where amb = amb_ok and fs = "disco estado_vazio"
        and e = "''abc''" and foto = "\<lparr>filename = ''foto.JPG'', stream = ''abc''\<rparr>"
        and cam = "''uploads/Desconhecido/12345678901.jpg''"] s
    by blast
  then show ?thesis using 1 m s by simp
qed

lemma remover_foto_removida:
  assumes "isfile fs cam" "\<not> remove_falha amb" "\<not> rmdir_falha amb" "isdir fs (os_path_dirname cam)"
  shows "remover_foto amb fs cam =
     (if os_listdir (fs\<lparr>arquivos := AList.delete cam (arquivos fs)\<rparr>) (os_path_dirname cam) = Some []
      then fs\<lparr>arquivos := AList.delete cam (arquivos fs),
              pastas := removeAll (rstrip (os_path_dirname cam) ''/'') (pastas fs)\<rparr>
      else fs\<lparr>arquivos := AList.delete cam (arquivos fs)\<rparr>)"
proof -
  let ?fs1 = "fs\<lparr>arquivos := AList.delete cam (arquivos fs)\<rparr>"
  have d: "isdir ?fs1 (os_path_dirname cam)" using assms(4) by (simp add: isdir_def)
  then obtain es where es: "os_listdir ?fs1 (os_path_dirname cam) = Some es"
    by (simp add: os_listdir_def)
  show ?thesis
    using assms(1-3) es
    by (simp add: remover_foto_def os_path_exists_def os_remove_def os_rmdir_def Let_def)
qed

lemma map_fst_delete: "map fst (AList.delete k al) = filter (\<lambda>x. x \<noteq> k) (map fst al)"
  by (induction al) auto

lemma rstrip_idem: "rstrip (rstrip s cs) cs = rstrip s cs"
  by (simp add: rstrip_def)

lemma dirname_sem_barra_final:
  assumes "hd p \<noteq> CHR ''/''"
  shows "rstrip (os_path_dirname p) ''/'' = os_path_dirname p"
proof -
  define h where "h = take (nat (rfind p (CHR ''/'') + 1)) p"
  show ?thesis
  proof (cases "h = []")
    case True
    then show ?thesis by (simp add: os_path_dirname_def h_def[symmetric] rstrip_def)
  next
    case False
    then have "hd h = hd p" by (cases p) (auto simp: h_def take_Cons' split: if_splits)
    then have "hd h \<noteq> CHR ''/''" using assms by simp
    then have "h \<noteq> replicate (length h) (CHR ''/'')"
      using False by (cases h) auto
    then have "os_path_dirname p = rstrip h ''/''"
      using False by (simp add: os_path_dirname_def h_def[symmetric])
    then show ?thesis by (simp add: rstrip_idem)
  qed
qed

lemma remover_foto_por_conteudo:
  fixes fs :: sistema_arquivos
  defines "outros \<equiv> \<lambda>fs cam.
      filter (\<lambda>f. f \<noteq> cam \<and> os_path_dirname f = os_path_dirname cam) (map fst (arquivos fs))
      @ filter (\<lambda>d. os_path_dirname d = os_path_dirname cam) (pastas fs)"
  assumes "isfile fs cam" "\<not> remove_falha amb" "\<not> rmdir_falha amb" "isdir fs (os_path_dirname cam)"
    and rel: "hd cam \<noteq> CHR ''/''"
  shows "remover_foto amb fs cam =
     (if outros fs cam = []
      then fs\<lparr>arquivos := AList.delete cam (arquivos fs),
              pastas := removeAll (os_path_dirname cam) (pastas fs)\<rparr>
      else fs\<lparr>arquivos := AList.delete cam (arquivos fs)\<rparr>)"
proof -
  have r: "rstrip (os_path_dirname cam) ''/'' = os_path_dirname cam"
    by (rule dirname_sem_barra_final[OF rel])
  have d: "isdir (fs\<lparr>arquivos := AList.delete cam (arquivos fs)\<rparr>) (os_path_dirname cam)"
    using assms(5) by (simp add: isdir_def)
  have f: "filter (\<lambda>f. os_path_dirname f = os_path_dirname cam) (filter (\<lambda>x. x \<noteq> cam) (map fst (arquivos fs)))
        = filter (\<lambda>f. f \<noteq> cam \<and> os_path_dirname f = os_path_dirname cam) (map fst (arquivos fs))"
    by (simp add: conj_commute)
  have l: "os_listdir (fs\<lparr>arquivos := AList.delete cam (arquivos fs)\<rparr>) (os_path_dirname cam)
            = Some (outros fs cam)"
    using d by (simp add: os_listdir_def r map_fst_delete f outros_def)
  show ?thesis
    unfolding remover_foto_removida[OF assms(2-5)] l r by simp
qed

text \<open>
  C7. A \<open>/excluir\<close> request for a row whose photo is a file of the disk, under a relative
  path, in a directory of the disk, when \<open>os.remove\<close> and \<open>os.rmdir\<close> do not fail: the
  photo is removed. When the disk holds no other file and no directory whose parent is the
  directory of the photo, that directory is removed, and only that one; when it holds one,
  all the directories stay.
\<close>

theorem pasta_removida_quando_vazia:
  fixes st :: estado and prof :: professor
  defines "dir \<equiv> os_path_dirname (caminho_foto prof)"
  defines "outros \<equiv>
      filter (\<lambda>f. f \<noteq> caminho_foto prof \<and> os_path_dirname f = dir) (map fst (arquivos (disco st)))
      @ filter (\<lambda>d. os_path_dirname d = dir) (pastas (disco st))"
  assumes "\<not> consulta_falha amb" "find (\<lambda>p. id_prof p = i) (tabela st) = Some prof"
    and "isfile (disco st) (caminho_foto prof)" "isdir (disco st) dir"
    and "hd (caminho_foto prof) \<noteq> CHR ''/''"
    and "\<not> remove_falha amb" "\<not> rmdir_falha amb"
  shows "arquivos (disco (snd (excluir_professor amb st i)))
           = AList.delete (caminho_foto prof) (arquivos (disco st))
       \<and> \<not> isfile (disco (snd (excluir_professor amb st i))) (caminho_foto prof)
       \<and> (outros = [] \<longrightarrow>
            dir \<notin> set (pastas (disco (snd (excluir_professor amb st i))))
            \<and> \<not> isdir (disco (snd (excluir_professor amb st i))) dir
            \<and> pastas (disco (snd (excluir_professor amb st i))) = removeAll dir (pastas (disco st)))
       \<and> (outros \<noteq> [] \<longrightarrow>
            dir \<in> set (pastas (disco (snd (excluir_professor amb st i))))
            \<and> isdir (disco (snd (excluir_professor amb st i))) dir
            \<and> pastas (disco (snd (excluir_professor amb st i))) = pastas (disco st))"
proof -
  have rs: "rstrip dir ''/'' = dir"
    unfolding dir_def by (rule dirname_sem_barra_final) (use assms in simp)
  have din: "dir \<noteq> []" "dir \<in> set (pastas (disco st))"
    using assms(6) by (simp_all add: isdir_def rs)
  have r: "remover_foto amb (disco st) (caminho_foto prof) =
     (if outros = []
      then (disco st)\<lparr>arquivos := AList.delete (caminho_foto prof) (arquivos (disco st)),
              pastas := removeAll dir (pastas (disco st))\<rparr>
      else (disco st)\<lparr>arquivos := AList.delete (caminho_foto prof) (arquivos (disco st))\<rparr>)"
    unfolding outros_def dir_def
    by (rule remover_foto_por_conteudo) (use assms in \<open>simp_all add: dir_def\<close>)
  have e: "disco (snd (excluir_professor amb st i)) = remover_foto amb (disco st) (caminho_foto prof)"
    using assms(3,4) by (simp add: excluir_professor_def Let_def)
  show ?thesis
    unfolding e r using din
    by (auto simp: isdir_def isfile_def delete_conv' rs)
qed

lemma dirname_ana: "os_path_dirname ''uploads/Boa_Vista/12345678901.jpg'' = ''uploads/Boa_Vista''"
  by (simp add: os_path_dirname_def rfind_def rstrip_def)

lemma dirname_bia: "os_path_dirname ''uploads/Boa_Vista/12345678902.png'' = ''uploads/Boa_Vista''"
  by (simp add: os_path_dirname_def rfind_def rstrip_def)

lemma dirname_boa_vista: "os_path_dirname ''uploads/Boa_Vista'' = ''uploads''"
  by (simp add: os_path_dirname_def rfind_def rstrip_def)

lemma dirname_uploads: "os_path_dirname ''uploads'' = []"
  by (simp add: os_path_dirname_def rfind_def rstrip_def)

lemma dirname_caio: "os_path_dirname ''uploads/Pacaraima/12345678903.jpg'' = ''uploads/Pacaraima''"
  by (simp add: os_path_dirname_def rfind_def rstrip_def)

lemma dirname_pacaraima: "os_path_dirname ''uploads/Pacaraima'' = ''uploads''"
  by (simp add: os_path_dirname_def rfind_def rstrip_def)

theorem pasta_removida_quando_vazia_witness:
  "pastas (disco (snd (excluir_professor amb_ok estado_ana 1))) = [''uploads'']
   \<and> pastas (disco (snd (excluir_professor amb_ok estado_ana_caio 1))) = [''uploads'', ''uploads/Pacaraima'']
   \<and> pastas (disco (snd (excluir_professor amb_ok estado_ana_bia 1))) = [''uploads'', ''uploads/Boa_Vista'']
   \<and> arquivos (disco (snd (excluir_professor amb_ok estado_ana_bia 1)))
        = [(''uploads/Boa_Vista/12345678902.png'', ''def'')]"
proof -
  have a: "\<not> consulta_falha amb_ok" "\<not> remove_falha amb_ok" "\<not> rmdir_falha amb_ok"
    by (simp_all add: amb_ok_def)
  have c: "caminho_foto prof_ana = ''uploads/Boa_Vista/12345678901.jpg''" by (simp add: prof_ana_def)
  have 1: "pastas (disco (snd (excluir_professor amb_ok estado_ana 1))) = [''uploads'']"
    using pasta_removida_quando_vazia[of amb_ok 1 estado_ana prof_ana] a
    by (simp add: c estado_ana_def isfile_def isdir_def rstrip_def dirname_ana dirname_boa_vista
          dirname_uploads) (simp add: prof_ana_def)
  have 2: "pastas (disco (snd (excluir_professor amb_ok estado_ana_caio 1))) = [''uploads'', ''uploads/Pacaraima'']"
    using pasta_removida_quando_vazia[of amb_ok 1 estado_ana_caio prof_ana] a
    by (simp add: c estado_ana_caio_def isfile_def isdir_def rstrip_def dirname_ana dirname_boa_vista
          dirname_uploads dirname_caio dirname_pacaraima prof_caio_def) (simp add: prof_ana_def)
  have 3: "pastas (disco (snd (excluir_professor amb_ok estado_ana_bia 1))) = [''uploads'', ''uploads/Boa_Vista'']
     \<and> arquivos (disco (snd (excluir_professor amb_ok estado_ana_bia 1)))
        = [(''uploads/Boa_Vista/12345678902.png'', ''def'')]"
    using pasta_removida_quando_vazia[of amb_ok 1 estado_ana_bia prof_ana] a
    by (simp add: c estado_ana_bia_def isfile_def isdir_def rstrip_def dirname_ana dirname_boa_vista
          dirname_uploads dirname_bia prof_bia_def) (simp add: prof_ana_def)
  show ?thesis using 1 2 3 by simp
qed

subsection \<open>The rejected \<open>cpf\<close> and the repeated \<open>cpf\<close> under another path\<close>

text \<open>
  A \<open>cpf\<close> that has not 11 characters, or of which \<open>str.isdigit\<close> does not hold, is
  answered with the message of the 11 numeric digits, and the state is left as it was.
\<close>

lemma cpf_invalido_sem_efeito:
  assumes "form_nome req = Some n" "form_cpf req = Some c" "form_escola_id req = Some e"
    "files_foto req = Some foto" "n \<noteq> []" "c \<noteq> []" "e \<noteq> []" "filename foto \<noteq> []"
    and "\<not> (length c = 11 \<and> str_isdigit c)"
  shows "processar_cadastro amb st req = (mensagem msg_cpf_invalido 400, st)"
  using assms by (simp add: processar_cadastro_def)

text \<open>
  A request with a \<open>cpf\<close> on record whose upload is saved under another path than the
  row's photo (another municipality folder or another extension) is answered with 409; the
  upload is removed, and the table and the row's photo are as before.
\<close>

lemma reenvio_outro_caminho:
  assumes req: "form_nome req = Some n" "form_cpf req = Some c" "form_escola_id req = Some e"
      "files_foto req = Some foto" "n \<noteq> []" "e \<noteq> []" "filename foto \<noteq> []"
      "length c = 11" "str_isdigit c"
    and sv: "salvar_arquivo amb (disco st) c e foto = (Some cam, fs)"
    and dup: "find (\<lambda>p. cpf p = c) (tabela st) = Some prof" "caminho_foto prof \<noteq> cam"
    and amb: "\<not> consulta_falha amb" "\<not> remove_falha amb"
  shows "processar_cadastro amb st req =
           (mensagem msg_cpf_duplicado 409,
            \<lparr>tabela = tabela st, disco = fs\<lparr>arquivos := AList.delete cam (arquivos fs)\<rparr>\<rparr>)
       \<and> map_of (AList.delete cam (arquivos fs)) (caminho_foto prof)
           = map_of (arquivos (disco st)) (caminho_foto prof)
       \<and> map_of (AList.delete cam (arquivos fs)) cam = None"
proof -
  note s = salvar_arquivo_Some[OF sv req(9)]
  have "processar_cadastro amb st req = armazenar amb (st\<lparr>disco := fs\<rparr>) n c e (form_nome_escola req) cam"
    using processar_cadastro_valido[OF req, of amb st] sv by simp
  also have "\<dots> = (mensagem msg_cpf_duplicado 409,
            \<lparr>tabela = tabela st, disco = fs\<lparr>arquivos := AList.delete cam (arquivos fs)\<rparr>\<rparr>)"
    using dup(1) amb s(3) by (simp add: armazenar_def os_path_exists_def os_remove_def)
  finally show ?thesis using dup(2) by (simp add: delete_conv' s(1) update_conv')
qed

section \<open>Rows and their photos over sequences of requests\<close>

lemma basename_join: "CHR ''/'' \<notin> set f \<Longrightarrow> os_path_basename (d @ CHR ''/'' # f) = f"
  by (simp add: os_path_basename_def rfind_last nat_add_distrib)

lemma basename_caminho:
  assumes "str_isdigit c" "length c = 11"
  shows "take 11 (os_path_basename (caminho_salvamento_de (municipio (get_info_escola lim x)) c
            (str_lower (snd (os_path_splitext fn))))) = c"
proof -
  let ?e = "str_lower (snd (os_path_splitext fn))"
  let ?m = "secure_filename (municipio (get_info_escola lim x))"
  have "CHR ''/'' \<notin> set (c @ ?e)"
    using str_isdigit_no_slash[OF assms(1)] by (simp add: str_lower_slash splitext_ext_no_slash)
  then have "os_path_basename ((''uploads/'' @ ?m) @ CHR ''/'' # (c @ ?e)) = c @ ?e"
    by (rule basename_join)
  then show ?thesis
    unfolding caminho_salvamento_eq[OF assms(1)] using assms(2) by simp
qed

lemma find_None_cpf: "find (\<lambda>p. cpf p = c) t = None \<longleftrightarrow> c \<notin> cpf ` set t"
  by (auto simp: find_None_iff)

lemma salvar_arquivo_isfile:
  assumes "salvar_arquivo amb fs0 c e foto = (r, fs)" "isfile fs0 p"
  shows "isfile fs p"
  using salvar_arquivo_cases[OF assms(1)] assms(2)
  by (auto simp: isfile_def update_conv')

lemma erro_bd_tabela: "tabela (snd (erro_bd amb st cam)) = tabela st"
  by (auto simp: erro_bd_def split: option.splits)

lemma erro_bd_isfile:
  assumes "isfile (disco st) p" "p \<noteq> cam"
  shows "isfile (disco (snd (erro_bd amb st cam))) p"
  using assms by (auto simp: erro_bd_def os_remove_def isfile_def delete_conv' split: option.splits)

lemma invariante_outro_disco:
  assumes "invariante st" "\<And>p. p \<in> set (tabela st) \<Longrightarrow> isfile fs (caminho_foto p)"
  shows "invariante (st\<lparr>disco := fs\<rparr>)"
  using assms by (auto simp: invariante_def list_all_iff)

lemma invariante_armazenar:
  assumes inv: "invariante st" and novo: "find (\<lambda>p. cpf p = c) (tabela st) = None"
    and cam: "isfile (disco st) cam" "take 11 (os_path_basename cam) = c"
  shows "invariante (snd (armazenar amb st n c e v cam))"
proof -
  have dif: "caminho_foto p \<noteq> cam" if "p \<in> set (tabela st)" for p
  proof
    assume "caminho_foto p = cam"
    then have "cpf p = c" using inv that cam(2) by (auto simp: invariante_def list_all_iff)
    then show False using novo that by (auto simp: find_None_iff)
  qed
  have e: "invariante (snd (erro_bd amb st cam))"
    unfolding invariante_def erro_bd_tabela
    using inv dif erro_bd_isfile[of st _ cam amb] by (auto simp: invariante_def list_all_iff)
  have s: "invariante (st\<lparr>tabela := tabela st @ [\<lparr>id_prof = k, nome = n, cpf = c, escola_id = i,
                                   caminho_foto = cam\<rparr>]\<rparr>)" for k i
    using inv cam novo by (auto simp: invariante_def list_all_iff find_None_iff)
  show ?thesis
    using novo e s by (auto simp: armazenar_def split: option.splits)
qed

lemma invariante_cadastro:
  assumes inv: "invariante st" and novo: "\<not> cpf_cadastrado st req"
  shows "invariante (snd (processar_cadastro amb st req))"
proof (cases "\<exists>n c e foto. form_nome req = Some n \<and> form_cpf req = Some c \<and> form_escola_id req = Some e
          \<and> files_foto req = Some foto \<and> n \<noteq> [] \<and> e \<noteq> [] \<and> filename foto \<noteq> []
          \<and> length c = 11 \<and> str_isdigit c")
  case False
  then have "snd (processar_cadastro amb st req) = st"
    by (auto simp: processar_cadastro_def split: option.splits)
  then show ?thesis using inv by simp
next
  case True
  then obtain n c e foto where req: "form_nome req = Some n" "form_cpf req = Some c"
      "form_escola_id req = Some e" "files_foto req = Some foto" "n \<noteq> []" "e \<noteq> []"
      "filename foto \<noteq> []" "length c = 11" "str_isdigit c" by blast
  obtain r fs where sv: "salvar_arquivo amb (disco st) c e foto = (r, fs)" by (cases "salvar_arquivo amb (disco st) c e foto")
  have inv1: "invariante (st\<lparr>disco := fs\<rparr>)"
    using inv salvar_arquivo_isfile[OF sv] by (intro invariante_outro_disco) (auto simp: invariante_def list_all_iff)
  note p = processar_cadastro_valido[OF req, of amb st]
  show ?thesis
  proof (cases r)
    case None
    then show ?thesis using p sv inv1 by simp
  next
    case (Some cam)
    have nv: "find (\<lambda>p. cpf p = c) (tabela (st\<lparr>disco := fs\<rparr>)) = None"
      using novo req(2) by (simp add: cpf_cadastrado_def)
    have f: "isfile (disco (st\<lparr>disco := fs\<rparr>)) cam"
      using salvar_arquivo_Some(3)[OF sv[unfolded Some] req(9)] by simp
    have c: "cam = caminho_salvamento_de (municipio (get_info_escola (max_str_digits amb) (VStr e))) c
                    (str_lower (snd (os_path_splitext (filename foto))))"
      using salvar_arquivo_cases[OF sv] Some by auto
    have b: "take 11 (os_path_basename cam) = c"
      unfolding c by (rule basename_caminho[OF req(9,8)])
    show ?thesis
      using p sv Some invariante_armazenar[OF inv1 nv f b] by simp
  qed
qed

lemma remover_foto_arquivos:
  "arquivos (remover_foto amb fs cam) = arquivos fs
   \<or> arquivos (remover_foto amb fs cam) = AList.delete cam (arquivos fs)"
  by (auto simp: remover_foto_def os_remove_def os_rmdir_def Let_def split: option.splits)

lemma remover_foto_isfile:
  assumes "isfile fs p" "p \<noteq> cam"
  shows "isfile (remover_foto amb fs cam) p"
  using remover_foto_arquivos[of amb fs cam] assms by (auto simp: isfile_def delete_conv')

lemma invariante_exclusao:
  assumes inv: "invariante st" and ok: "\<not> commit_falha amb"
  shows "invariante (snd (excluir_professor amb st i))"
proof (cases "consulta_falha amb \<or> find (\<lambda>p. id_prof p = i) (tabela st) = None")
  case True
  then have "snd (excluir_professor amb st i) = st" by (auto simp: excluir_professor_def)
  then show ?thesis using inv by simp
next
  case False
  then obtain prof where f: "find (\<lambda>p. id_prof p = i) (tabela st) = Some prof" and q: "\<not> consulta_falha amb"
    by auto
  have pin: "prof \<in> set (tabela st)" using f by (auto simp: find_Some_iff)
  have d: "distinct (tabela st)" using inv by (auto simp: invariante_def distinct_map)
  have s: "snd (excluir_professor amb st i) =
      \<lparr>tabela = remove1 prof (tabela st), disco = remover_foto amb (disco st) (caminho_foto prof)\<rparr>"
    using f q ok by (simp add: excluir_professor_def Let_def)
  have dif: "caminho_foto p \<noteq> caminho_foto prof" if "p \<in> set (remove1 prof (tabela st))" for p
  proof
    assume e: "caminho_foto p = caminho_foto prof"
    have pt: "p \<in> set (tabela st)" "p \<noteq> prof" using that d by auto
    have "take 11 (os_path_basename (caminho_foto p)) = cpf p"
      "take 11 (os_path_basename (caminho_foto prof)) = cpf prof"
      using inv pt(1) pin by (auto simp: invariante_def list_all_iff)
    then have "cpf p = cpf prof" using e by simp
    moreover have "inj_on cpf (set (tabela st))" using inv by (auto simp: invariante_def distinct_map)
    ultimately show False using pt pin by (auto dest: inj_onD)
  qed
  have "distinct (map cpf (remove1 prof (tabela st)))"
    using inv by (auto simp: invariante_def distinct_map intro: inj_on_subset distinct_remove1 set_remove1_subset)
  moreover have "isfile (remover_foto amb (disco st) (caminho_foto prof)) (caminho_foto p)
      \<and> take 11 (os_path_basename (caminho_foto p)) = cpf p" if "p \<in> set (remove1 prof (tabela st))" for p
  proof -
    have "p \<in> set (tabela st)" using that by (meson notin_set_remove1)
    then show ?thesis using inv dif[OF that] remover_foto_isfile by (auto simp: invariante_def list_all_iff)
  qed
  ultimately show ?thesis unfolding s by (auto simp: invariante_def list_all_iff)
qed

lemma invariante_executar:
  "invariante st \<Longrightarrow> sem_reenvio_nem_falha st ops \<Longrightarrow> invariante (executar st ops)"
proof (induction ops arbitrary: st)
  case Nil
  then show ?case by (simp add: executar_def)
next
  case (Cons op ops)
  show ?case
  proof (cases op)
    case (Cadastro amb req)
    with Cons.prems have "invariante (passo st op)" "sem_reenvio_nem_falha (passo st op) ops"
      using invariante_cadastro by auto
    from Cons.IH[OF this] show ?thesis by (simp add: executar_def)
  next
    case (Exclusao amb i)
    with Cons.prems have "invariante (passo st op)" "sem_reenvio_nem_falha (passo st op) ops"
      using invariante_exclusao by auto
    from Cons.IH[OF this] show ?thesis by (simp add: executar_def)
  qed
qed

lemma armazenar_tabela:
  "snd (armazenar amb st n c e v cam) = \<lparr>tabela = tabela st, disco = disco (snd (armazenar amb st n c e v cam))\<rparr>
   \<or> (\<exists>k i. snd (armazenar amb st n c e v cam) =
         st\<lparr>tabela := tabela st @ [\<lparr>id_prof = k, nome = n, cpf = c, escola_id = i, caminho_foto = cam\<rparr>]\<rparr>)"
  by (auto simp: armazenar_def erro_bd_def split: option.splits)

lemma cadastro_grava_antes:
  "tabela (snd (processar_cadastro amb st req)) = tabela st
   \<or> (\<exists>p. tabela (snd (processar_cadastro amb st req)) = tabela st @ [p]
          \<and> isfile (disco (snd (processar_cadastro amb st req))) (caminho_foto p))"
proof (cases "\<exists>n c e foto. form_nome req = Some n \<and> form_cpf req = Some c \<and> form_escola_id req = Some e
          \<and> files_foto req = Some foto \<and> n \<noteq> [] \<and> e \<noteq> [] \<and> filename foto \<noteq> []
          \<and> length c = 11 \<and> str_isdigit c")
  case False
  then have "snd (processar_cadastro amb st req) = st"
    by (auto simp: processar_cadastro_def split: option.splits)
  then show ?thesis by simp
next
  case True
  then obtain n c e foto where req: "form_nome req = Some n" "form_cpf req = Some c"
      "form_escola_id req = Some e" "files_foto req = Some foto" "n \<noteq> []" "e \<noteq> []"
      "filename foto \<noteq> []" "length c = 11" "str_isdigit c" by blast
  obtain r fs where sv: "salvar_arquivo amb (disco st) c e foto = (r, fs)"
    by (cases "salvar_arquivo amb (disco st) c e foto")
  note p = processar_cadastro_valido[OF req, of amb st]
  show ?thesis
  proof (cases r)
    case None
    then show ?thesis using p sv by simp
  next
    case (Some cam)
    have f: "isfile fs cam" using salvar_arquivo_Some(3)[OF sv[unfolded Some] req(9)] .
    have e: "processar_cadastro amb st req = armazenar amb (st\<lparr>disco := fs\<rparr>) n c e (form_nome_escola req) cam"
      using p sv Some by simp
    from armazenar_tabela[of amb "st\<lparr>disco := fs\<rparr>" n c e "form_nome_escola req" cam]
    show ?thesis
    proof
      assume a: "snd (armazenar amb (st\<lparr>disco := fs\<rparr>) n c e (form_nome_escola req) cam) =
        \<lparr>tabela = tabela (st\<lparr>disco := fs\<rparr>),
           disco = disco (snd (armazenar amb (st\<lparr>disco := fs\<rparr>) n c e (form_nome_escola req) cam))\<rparr>"
      have "tabela (snd (processar_cadastro amb st req)) = tabela st"
        unfolding e by (subst a) simp
      then show ?thesis by simp
    next
      assume "\<exists>k i. snd (armazenar amb (st\<lparr>disco := fs\<rparr>) n c e (form_nome_escola req) cam) =
         st\<lparr>disco := fs\<rparr>\<lparr>tabela := tabela (st\<lparr>disco := fs\<rparr>) @
            [\<lparr>id_prof = k, nome = n, cpf = c, escola_id = i, caminho_foto = cam\<rparr>]\<rparr>"
      then show ?thesis unfolding e using f by auto
    qed
  qed
qed

lemma remover_foto_sem_foto:
  "\<not> remove_falha amb \<Longrightarrow> \<not> isfile (remover_foto amb fs cam) cam"
  by (auto simp: remover_foto_def os_path_exists_def os_remove_def os_rmdir_def isfile_def
        delete_conv' Let_def split: option.splits)

lemma exclusao_remove_foto:
  assumes "\<not> consulta_falha amb" "\<not> remove_falha amb" "find (\<lambda>p. id_prof p = i) (tabela st) = Some prof"
  shows "\<not> isfile (disco (snd (excluir_professor amb st i))) (caminho_foto prof)"
  using assms remover_foto_sem_foto[of amb "disco st" "caminho_foto prof"]
  by (simp add: excluir_professor_def Let_def)

text \<open>
  C2 (as amended). From a state with an empty table, after any sequence of \<open>/cadastro\<close> and
  \<open>/excluir\<close> requests in which no \<open>/cadastro\<close> request carries a \<open>cpf\<close> that is on
  record when it is made and the commit of no \<open>/excluir\<close> request fails, whatever else
  fails, the \<open>caminho_foto\<close> of every row names a file of the disk. A \<open>/cadastro\<close> request
  adds at most one row, and only one whose photo it has saved; an \<open>/excluir\<close> request for a
  row on record leaves no file under that row's \<open>caminho_foto\<close> when \<open>os.remove\<close> does not
  fail, whether or not the row is then removed.
\<close>

theorem fotos_existem_sem_reenvio:
  "(tabela st0 = [] \<and> sem_reenvio_nem_falha st0 ops \<longrightarrow> fotos_existem (executar st0 ops))
   \<and> (tabela (snd (processar_cadastro amb st req)) = tabela st
       \<or> (\<exists>p. tabela (snd (processar_cadastro amb st req)) = tabela st @ [p]
              \<and> isfile (disco (snd (processar_cadastro amb st req))) (caminho_foto p)))
   \<and> (\<not> consulta_falha amb \<and> \<not> remove_falha amb \<and> find (\<lambda>p. id_prof p = i) (tabela st) = Some prof
        \<longrightarrow> \<not> isfile (disco (snd (excluir_professor amb st i))) (caminho_foto prof))"
proof (intro conjI impI)
  assume a: "tabela st0 = [] \<and> sem_reenvio_nem_falha st0 ops"
  then have "invariante st0" by (simp add: invariante_def)
  then have "invariante (executar st0 ops)" using a by (intro invariante_executar) simp_all
  then show "fotos_existem (executar st0 ops)" by (simp add: invariante_def fotos_existem_def list_all_iff)
next
  show "tabela (snd (processar_cadastro amb st req)) = tabela st
       \<or> (\<exists>p. tabela (snd (processar_cadastro amb st req)) = tabela st @ [p]
              \<and> isfile (disco (snd (processar_cadastro amb st req))) (caminho_foto p))"
    by (rule cadastro_grava_antes)
next
  assume "\<not> consulta_falha amb \<and> \<not> remove_falha amb \<and> find (\<lambda>p. id_prof p = i) (tabela st) = Some prof"
  then show "\<not> isfile (disco (snd (excluir_professor amb st i))) (caminho_foto prof)"
    using exclusao_remove_foto by blast
qed

theorem fotos_existem_sem_reenvio_witness:
  "sem_reenvio_nem_falha estado_vazio
      [Cadastro amb_ok req_ana, Cadastro amb_commit_falha req_bia, Exclusao amb_ok 2]
   \<and> fotos_existem (executar estado_vazio
        [Cadastro amb_ok req_ana, Cadastro amb_commit_falha req_bia, Exclusao amb_ok 2])
   \<and> \<not> isfile (disco (snd (excluir_professor amb_commit_falha estado_ana 1))) (caminho_foto prof_ana)"
proof -
  let ?ops = "[Cadastro amb_ok req_ana, Cadastro amb_commit_falha req_bia, Exclusao amb_ok 2]"
  have h1: "tabela estado_vazio = []" by (simp add: estado_vazio_def)
  have n1: "\<not> cpf_cadastrado estado_vazio req_ana"
    by (simp add: cpf_cadastrado_def req_ana_def estado_vazio_def)
  have n2: "\<not> cpf_cadastrado estado_ana req_bia"
    by (simp add: cpf_cadastrado_def req_bia_def estado_ana_def prof_ana_def)
  have c: "\<not> commit_falha amb_ok" by (simp add: amb_ok_def)
  have h2: "sem_reenvio_nem_falha estado_vazio ?ops"
    using n1 n2 c by (simp add: cadastro_ana)
  have a: "fotos_existem (executar estado_vazio ?ops)"
    using fotos_existem_sem_reenvio[where ?st0.0 = estado_vazio and ops = ?ops, THEN conjunct1] h1 h2
    by blast
  have f: "find (\<lambda>p. id_prof p = 1) (tabela estado_ana) = Some prof_ana"
    by (simp add: estado_ana_def prof_ana_def)
  have e: "\<not> consulta_falha amb_commit_falha" "\<not> remove_falha amb_commit_falha"
    by (simp_all add: amb_commit_falha_def amb_ok_def)
  have b: "\<not> isfile (disco (snd (excluir_professor amb_commit_falha estado_ana 1))) (caminho_foto prof_ana)"
    using fotos_existem_sem_reenvio[where amb = amb_commit_falha and st = estado_ana and i = 1
            and prof = prof_ana, THEN conjunct2, THEN conjunct2] f e
    by blast
  show ?thesis using h2 a b by blast
qed

lemma exclusao_ana_falha:
  "excluir_professor amb_commit_falha estado_ana 1 =
     (Texto ''Erro interno ao deletar o cadastro.'' 500,
      \<lparr>tabela = [prof_ana], disco = \<lparr>arquivos = [], pastas = [''uploads'']\<rparr>\<rparr>)"
proof -
  have "remover_foto amb_commit_falha (disco estado_ana) ''uploads/Boa_Vista/12345678901.jpg''
          = \<lparr>arquivos = [], pastas = [''uploads'']\<rparr>"
    by (subst remover_foto_removida)
       (simp_all add: estado_ana_def amb_commit_falha_def amb_ok_def isfile_def isdir_def dirname_ana
          os_listdir_def rstrip_def dirname_uploads dirname_boa_vista)
  then show ?thesis
    by (simp add: excluir_professor_def amb_commit_falha_def amb_ok_def estado_ana_def prof_ana_def Let_def)
qed

theorem fotos_existem_contraexemplo:
  "executar estado_vazio [Cadastro amb_ok req_ana, Exclusao amb_commit_falha 1] =
      \<lparr>tabela = [prof_ana], disco = \<lparr>arquivos = [], pastas = [''uploads'']\<rparr>\<rparr>
   \<and> \<not> fotos_existem (executar estado_vazio [Cadastro amb_ok req_ana, Exclusao amb_commit_falha 1])"
proof -
  have "executar estado_vazio [Cadastro amb_ok req_ana, Exclusao amb_commit_falha 1] =
      snd (excluir_professor amb_commit_falha (snd (processar_cadastro amb_ok estado_vazio req_ana)) 1)"
    unfolding executar_def foldl.simps passo.simps ..
  then have e: "executar estado_vazio [Cadastro amb_ok req_ana, Exclusao amb_commit_falha 1] =
      \<lparr>tabela = [prof_ana], disco = \<lparr>arquivos = [], pastas = [''uploads'']\<rparr>\<rparr>"
    unfolding cadastro_ana snd_conv exclusao_ana_falha .
  show ?thesis unfolding e by (simp add: fotos_existem_def isfile_def)
qed

end
